theory Spec2Isabelle
  imports Complex_Main "HOL-Library.Char_ord" "HOL-Library.List_Lexorder" "HOL-Library.AList"
begin

section \<open>Errors\<close>

text \<open>
  The exceptions the two modules raise, as values. The constructor is the Python exception
  class, its argument the message (for \<open>KeyError\<close> and \<open>NameError\<close> the missing name).
  The design document's error kinds are these classes under other names:
  \<open>InvalidDomainCount\<close> is the \<open>ValueError\<close> of \<open>_prepare_namelist\<close>, \<open>InvalidTimeType\<close> its
  \<open>TypeError\<close>, \<open>NoBoundaryFiles\<close> the \<open>IOError\<close> of \<open>_link_boundary_files\<close> and
  \<open>CapacityExceeded\<close> the \<open>IOError\<close> of \<open>_get_ext_list\<close>.

  \<open>wps.py\<close> logs through a module-level \<open>logger\<close> that exists once the module's main block
  has run; the model takes the logger as bound, and logging changes nothing that is modelled.
\<close>

datatype error =
    ValueError string
  | TypeError string
  | IOError string
  | OSError string
  | KeyError string
  | NameError string
  | IndexError

section \<open>wps.py: the extension list\<close>

text \<open>
  \<open>_get_ext_list(num)\<close>: the loop over \<open>range(num)\<close> is recursion on the number of
  iterations left; the counters \<open>i1\<close>, \<open>i2\<close>, \<open>i3\<close> and \<open>list_ext\<close> are the loop state.
  \<open>list_ext\<close> is unbound (\<open>None\<close>) until the first iteration creates it, so returning it
  after zero iterations is a \<open>NameError\<close>. Indexing \<open>ext\<close> out of range is an \<open>IndexError\<close>.
  \<open>num\<close> is the length of a list at the only call site, hence a natural number.
\<close>

definition ascii_uppercase :: string where
  "ascii_uppercase = ''ABCDEFGHIJKLMNOPQRSTUVWXYZ''"

definition ext :: "string list" where
  "ext = map (\<lambda>idx. [ascii_uppercase ! idx]) [0..<length ascii_uppercase]"

fun ext_loop ::
  "nat \<Rightarrow> nat \<Rightarrow> nat \<Rightarrow> nat \<Rightarrow> string list option \<Rightarrow> error + string list option" where
  "ext_loop 0 i1 i2 i3 list_ext = Inr list_ext"
| "ext_loop (Suc n) i1 i2 i3 list_ext =
     (if i1 < length ext \<and> i2 < length ext \<and> i3 < length ext then
        (let name = ext ! i3 @ ext ! i2 @ ext ! i1;
             list_ext' = (case list_ext of None \<Rightarrow> [name] | Some l \<Rightarrow> l @ [name]);
             i1' = i1 + 1
         in if i1' \<ge> length ascii_uppercase then
              (let i2' = i2 + 1
               in if i2' \<ge> length ascii_uppercase then
                    (let i3' = i3 + 1
                     in if i3' \<ge> length ascii_uppercase
                        then Inl (IOError ''Too many files to link'')
                        else ext_loop n 1 1 i3' (Some list_ext'))
                  else ext_loop n 1 i2' i3 (Some list_ext'))
            else ext_loop n i1' i2 i3 (Some list_ext'))
      else Inl IndexError)"

definition get_ext_list :: "nat \<Rightarrow> error + string list" where
  "get_ext_list num =
     (case ext_loop num 0 0 0 None of
        Inl e \<Rightarrow> Inl e
      | Inr None \<Rightarrow> Inl (NameError ''list_ext'')
      | Inr (Some list_ext) \<Rightarrow> Inr list_ext)"

text \<open>
  Proof vocabulary for the loop: the identifier of a counter state, the number of
  iterations a state still has before the loop raises, and the list behind \<open>list_ext\<close>.
\<close>

definition name3 :: "nat \<Rightarrow> nat \<Rightarrow> nat \<Rightarrow> string" where
  "name3 i1 i2 i3 = ext ! i3 @ ext ! i2 @ ext ! i1"

definition remaining :: "nat \<Rightarrow> nat \<Rightarrow> nat \<Rightarrow> nat" where
  "remaining i1 i2 i3 = (26 - i1) + 25 * (25 - i2) + 625 * (25 - i3)"

fun the_list :: "string list option \<Rightarrow> string list" where
  "the_list None = []"
| "the_list (Some l) = l"

section \<open>wps.py: the namelist\<close>

text \<open>
  The namelist reader hands back nested ordered dictionaries; they are association lists
  here, \<open>AList.update\<close> being assignment to a key (in place when the key exists, appended
  otherwise) and \<open>getitem\<close> the subscript with its \<open>KeyError\<close>. The values are the Python
  values a namelist holds. A boolean is an instance of \<open>int\<close> in Python, with \<open>True\<close> equal
  to 1 and \<open>False\<close> to 0: \<open>isinstance_int\<close> and \<open>int_value\<close> say so.
\<close>

datatype pyval = VInt int | VBool bool | VReal real | VStr string | VList "pyval list"

type_synonym group = "(string \<times> pyval) list"
type_synonym namelist = "(string \<times> group) list"

definition getitem :: "(string \<times> 'a) list \<Rightarrow> string \<Rightarrow> error + 'a" where
  "getitem d k = (case map_of d k of None \<Rightarrow> Inl (KeyError k) | Some v \<Rightarrow> Inr v)"

fun isinstance_int :: "pyval \<Rightarrow> bool" where
  "isinstance_int (VInt n) = True"
| "isinstance_int (VBool b) = True"
| "isinstance_int v = False"

fun int_value :: "pyval \<Rightarrow> int" where
  "int_value (VInt n) = n"
| "int_value (VBool b) = (if b then 1 else 0)"
| "int_value v = 0"

text \<open>\<open>xs * n\<close> on a Python list: \<open>n\<close> copies, none when \<open>n\<close> is not positive.\<close>

definition py_repeat :: "'a list \<Rightarrow> int \<Rightarrow> 'a list" where
  "py_repeat xs n = concat (replicate (nat n) xs)"

text \<open>
  The arguments \<open>datestart\<close> and \<open>dateend\<close> are arbitrary Python objects; only a
  \<open>datetime\<close> passes the \<open>isinstance\<close> test. The fields are those the format string reads.
\<close>

record datetime =
  year :: nat
  month :: nat
  day :: nat
  hour :: nat
  minute :: nat
  second :: nat

datatype pyobj = Datetime datetime | Str string | Int int | NoneObj

fun isinstance_datetime :: "pyobj \<Rightarrow> bool" where
  "isinstance_datetime (Datetime dt) = True"
| "isinstance_datetime x = False"

text \<open>
  \<open>datetime.strftime(dt, '%Y-%m-%d_%H:%M:%S')\<close> belongs to the standard library, which
  hands the format to the C library: the year is printed as a decimal number without
  padding, so that a year below 1000 has fewer than four digits, and month, day, hour,
  minute and second are zero-padded to two digits; \<open>strftime\<close> is that text. The
  \<open>strftime\<close> of Python 2 refuses a year before 1900 with a \<open>ValueError\<close>, that of
  Python 3 formats every year: the interpreter is a parameter of \<open>format_time\<close>, the
  call as \<open>_prepare_namelist\<close> makes it.
\<close>

datatype python = Python2 | Python3

fun str_nat :: "nat \<Rightarrow> string" where
  "str_nat n =
     (if n < 10 then [''0123456789'' ! n]
      else str_nat (n div 10) @ [''0123456789'' ! (n mod 10)])"

definition zfill :: "nat \<Rightarrow> string \<Rightarrow> string" where
  "zfill width s = replicate (width - length s) (CHR ''0'') @ s"

definition strftime :: "datetime \<Rightarrow> string" where
  "strftime dt =
     str_nat (year dt) @ ''-'' @ zfill 2 (str_nat (month dt)) @ ''-'' @
     zfill 2 (str_nat (day dt)) @ ''_'' @ zfill 2 (str_nat (hour dt)) @ '':'' @
     zfill 2 (str_nat (minute dt)) @ '':'' @ zfill 2 (str_nat (second dt))"

fun format_time :: "python \<Rightarrow> pyobj \<Rightarrow> error + string" where
  "format_time py (Datetime dt) =
     (if py = Python2 \<and> year dt < 1900 then
        Inl (ValueError (''year='' @ str_nat (year dt) @
          '' is before 1900; the datetime strftime() methods require year >= 1900''))
      else Inr (strftime dt))"
| "format_time py x = Inl (TypeError ''descriptor strftime requires a datetime object'')"

text \<open>
  The values a Python \<open>datetime\<close> can hold: its constructor admits the years 1 to 9999
  and the days, hours, minutes and seconds of the calendar.
\<close>

definition is_leap :: "nat \<Rightarrow> bool" where
  "is_leap y = (y mod 4 = 0 \<and> (y mod 100 \<noteq> 0 \<or> y mod 400 = 0))"

definition days_in_month :: "nat \<Rightarrow> nat \<Rightarrow> nat" where
  "days_in_month y m =
     (if m = 2 then (if is_leap y then 29 else 28)
      else if m = 4 \<or> m = 6 \<or> m = 9 \<or> m = 11 then 30
      else 31)"

definition valid_datetime :: "datetime \<Rightarrow> bool" where
  "valid_datetime dt =
     (1 \<le> year dt \<and> year dt \<le> 9999 \<and> 1 \<le> month dt \<and> month dt \<le> 12 \<and>
      1 \<le> day dt \<and> day dt \<le> days_in_month (year dt) (month dt) \<and>
      hour dt < 24 \<and> minute dt < 60 \<and> second dt < 60)"

text \<open>
  The design document's format, \<open>YYYY-MM-DD_HH:MM:SS\<close>, digit by digit: four digits of
  the year, two of each other field. \<open>four_digit_year\<close> names the years that the
  interpreter formats with four digits.
\<close>

definition digit :: "nat \<Rightarrow> char" where
  "digit n = ''0123456789'' ! n"

definition two_digits :: "nat \<Rightarrow> string" where
  "two_digits n = [digit (n div 10), digit (n mod 10)]"

definition four_digits :: "nat \<Rightarrow> string" where
  "four_digits n =
     [digit (n div 1000), digit (n div 100 mod 10), digit (n div 10 mod 10), digit (n mod 10)]"

definition timestamp_text :: "datetime \<Rightarrow> string" where
  "timestamp_text dt =
     four_digits (year dt) @ ''-'' @ two_digits (month dt) @ ''-'' @ two_digits (day dt) @
     ''_'' @ two_digits (hour dt) @ '':'' @ two_digits (minute dt) @ '':'' @
     two_digits (second dt)"

definition four_digit_year :: "python \<Rightarrow> datetime \<Rightarrow> bool" where
  "four_digit_year py dt =
     (case py of Python2 \<Rightarrow> 1900 \<le> year dt | Python3 \<Rightarrow> 1000 \<le> year dt)"

text \<open>
  The design document's integer: a value of integer type. A boolean is not one, though
  Python's \<open>isinstance\<close> takes it for one.
\<close>

fun integer_typed :: "pyval \<Rightarrow> bool" where
  "integer_typed (VInt n) = True"
| "integer_typed v = False"

section \<open>wps.py: the working directory\<close>

text \<open>
  The WPS working directory \<open>self.wps_workdir\<close> is the list of its files and links, in
  listing order, each under its name: the path \<open>os.path.join(self.wps_workdir, name)\<close> of
  the source is the entry \<open>name\<close>. A regular file holds a parsed namelist, the torn
  remains of a write that failed partway, or other data; a link records the path it
  points to. Subdirectories are left out of the listing, and a namelist is read from a
  regular file only.
\<close>

datatype content = Namelist namelist | Partial | Data

datatype node = Regular content | Symlink string

type_synonym directory = "(string \<times> node) list"

text \<open>
  Modelled from the spec: \<open>utils.silentremove\<close> (\<open>utils.py\<close> is not among the sources). The
  design document has the removal ignore the absence of the file: the entry is deleted
  when it exists, and nothing is raised.
\<close>

definition silentremove :: "string \<Rightarrow> directory \<Rightarrow> directory" where
  "silentremove filename wd = AList.delete filename wd"

text \<open>
  \<open>f90nml.read\<close> and \<open>Namelist.write\<close> are the external namelist library. Reading parses
  the file at the path. Writing stores the document at the path; whether the write runs
  to its end is the environment's choice, given as a \<open>write_outcome\<close>: a write that fails
  partway raises and leaves a torn file under the name it was writing to.
\<close>

definition nml_read :: "string \<Rightarrow> directory \<Rightarrow> error + namelist" where
  "nml_read nml_path wd =
     (case map_of wd nml_path of
        Some (Regular (Namelist nml)) \<Rightarrow> Inr nml
      | _ \<Rightarrow> Inl (IOError nml_path))"

datatype write_outcome = Completes | FailsPartway

definition nml_write ::
  "namelist \<Rightarrow> string \<Rightarrow> write_outcome \<Rightarrow> directory \<Rightarrow> (error + unit) \<times> directory" where
  "nml_write nml nml_path outcome wd =
     (case outcome of
        Completes \<Rightarrow> (Inr (), AList.update nml_path (Regular (Namelist nml)) wd)
      | FailsPartway \<Rightarrow> (Inl (IOError nml_path), AList.update nml_path (Regular Partial) wd))"

text \<open>
  \<open>_prepare_namelist(datestart, dateend)\<close>. The three paths the source builds are the same
  expression, \<open>os.path.join(work_dir, 'wps', 'namelist.wps')\<close>, the entry \<open>namelist.wps\<close>
  of the working directory. The result is the exception raised, if any, and the
  directory as the call leaves it. \<open>prepare_namelist_on\<close> is the method under either
  interpreter, \<open>prepare_namelist\<close> the method under Python 3, where no date is refused.
\<close>

definition prepare_namelist_on ::
  "python \<Rightarrow> pyobj \<Rightarrow> pyobj \<Rightarrow> write_outcome \<Rightarrow> directory \<Rightarrow> (error + unit) \<times> directory" where
  "prepare_namelist_on py datestart dateend outcome wd =
     (case nml_read ''namelist.wps'' wd of
        Inl e \<Rightarrow> (Inl e, wd)
      | Inr wps_nml \<Rightarrow>
     (case getitem wps_nml ''share'' of
        Inl e \<Rightarrow> (Inl e, wd)
      | Inr share \<Rightarrow>
     (case getitem share ''max_dom'' of
        Inl e \<Rightarrow> (Inl e, wd)
      | Inr ndoms \<Rightarrow>
        if \<not> (isinstance_int ndoms \<and> int_value ndoms > 0) then
          (Inl (ValueError
             '''domains_max_dom' namelist variable should be an integer>0''), wd)
        else if \<not> list_all isinstance_datetime [datestart, dateend] then
          (Inl (TypeError ''datestart and dateend must be an instance of datetime''), wd)
        else
     (case format_time py datestart of
        Inl e \<Rightarrow> (Inl e, wd)
      | Inr start \<Rightarrow>
     (case format_time py dateend of
        Inl e \<Rightarrow> (Inl e, wd)
      | Inr end \<Rightarrow>
        (let share1 = AList.update ''start_date''
                        (VList (py_repeat [VStr start] (int_value ndoms))) share;
             share2 = AList.update ''end_date''
                        (VList (py_repeat [VStr end] (int_value ndoms))) share1;
             wps_nml' = AList.update ''share'' share2 wps_nml
         in nml_write wps_nml' ''namelist.wps'' outcome
              (silentremove ''namelist.wps'' wd)))))))"


text \<open>Reading a field of the namelist stored under a name of the directory.\<close>

definition stored_field :: "directory \<Rightarrow> string \<Rightarrow> string \<Rightarrow> string \<Rightarrow> pyval option" where
  "stored_field wd filename grp key =
     (case map_of wd filename of
        Some (Regular (Namelist nml)) \<Rightarrow>
          (case map_of nml grp of None \<Rightarrow> None | Some g \<Rightarrow> map_of g key)
      | _ \<Rightarrow> None)"

section \<open>wps.py: cleaning and linking\<close>

text \<open>
  \<open>glob.glob(os.path.join(dir, pattern))\<close> over the names of a directory, as the standard
  library computes it: a pattern without a magic character matches the entry of that
  name when it exists; otherwise the names are filtered with \<open>fnmatch\<close>, names with a
  leading dot skipped unless the pattern has one. Of the magic characters the patterns
  of \<open>wps.py\<close> use the star only; \<open>fnmatch\<close> covers the star and the question mark.
\<close>

definition has_magic :: "string \<Rightarrow> bool" where
  "has_magic s = list_ex (\<lambda>c. c \<in> set ''*?['') s"

fun fnmatch :: "string \<Rightarrow> string \<Rightarrow> bool" where
  "fnmatch [] [] = True"
| "fnmatch (c # cs) [] = False"
| "fnmatch [] (p # ps) = (p = CHR ''*'' \<and> fnmatch [] ps)"
| "fnmatch (c # cs) (p # ps) =
     (if p = CHR ''*'' then fnmatch (c # cs) ps \<or> fnmatch cs (p # ps)
      else if p = CHR ''?'' then fnmatch cs ps
      else c = p \<and> fnmatch cs ps)"

definition glob :: "string list \<Rightarrow> string \<Rightarrow> string list" where
  "glob names pattern =
     (if has_magic pattern then
        filter (\<lambda>x. fnmatch x pattern)
          (if take 1 pattern \<noteq> ''.'' then filter (\<lambda>x. take 1 x \<noteq> ''.'') names
           else names)
      else if pattern \<in> set names then [pattern] else [])"

text \<open>\<open>_clean_boundaries_wps\<close>: all four globs are taken first, then the files removed.\<close>

definition clean_boundaries_wps :: "directory \<Rightarrow> directory" where
  "clean_boundaries_wps wd =
     (let files = map (\<lambda>ext. glob (map fst wd) ext)
                    [''GRIBFILE.*'', ''FILE:'', ''PFILE:'', ''PRES:''];
          files_flat = concat files
      in foldl (\<lambda>d filename. silentremove filename d) wd files_flat)"

text \<open>
  \<open>os.path.join\<close> of two components, \<open>os.path.split\<close>, and \<open>os.symlink\<close>, which raises
  when the name of the link is taken.
\<close>

definition os_path_join :: "string \<Rightarrow> string \<Rightarrow> string" where
  "os_path_join a b =
     (if take 1 b = ''/'' then b
      else if a = [] \<or> last a = CHR ''/'' then a @ b
      else a @ ''/'' @ b)"

definition os_path_split :: "string \<Rightarrow> string \<times> string" where
  "os_path_split p =
     (let tail = rev (takeWhile (\<lambda>c. c \<noteq> CHR ''/'') (rev p));
          head = take (length p - length tail) p
      in (if head \<noteq> [] \<and> \<not> list_all (\<lambda>c. c = CHR ''/'') head
          then rev (dropWhile (\<lambda>c. c = CHR ''/'') (rev head))
          else head,
          tail))"

definition os_symlink :: "string \<Rightarrow> string \<Rightarrow> directory \<Rightarrow> (error + unit) \<times> directory" where
  "os_symlink src dst wd =
     (if dst \<in> fst ` set wd then (Inl (OSError ''File exists''), wd)
      else (Inr (), wd @ [(dst, Symlink src)]))"

text \<open>
  What the linking reads of the file system outside the working directory: the names
  that \<open>os.listdir\<close> gives for a directory (none for a path that is no directory), the
  paths for which \<open>os.path.isfile\<close> holds, and, for a directory pattern with a glob
  character in it, the paths that \<open>glob\<close> expands the pattern to.
\<close>

record filesystem =
  directories :: "(string \<times> string list) list"
  regular :: "string list"
  expansions :: "(string \<times> string list) list"

definition listdir :: "filesystem \<Rightarrow> string \<Rightarrow> string list" where
  "listdir fs dirname =
     (case map_of (directories fs) dirname of None \<Rightarrow> [] | Some names \<Rightarrow> names)"

definition isfile :: "filesystem \<Rightarrow> string \<Rightarrow> bool" where
  "isfile fs path = (path \<in> set (regular fs))"

definition expand :: "filesystem \<Rightarrow> string \<Rightarrow> string list" where
  "expand fs pattern =
     (case map_of (expansions fs) pattern of None \<Rightarrow> [] | Some paths \<Rightarrow> paths)"

text \<open>
  \<open>glob.glob\<close> of a pathname whose last component has a glob character, as
  \<open>os.path.join(self.boundary_dir, '*')\<close> has: the pathname is split; a directory part
  with a glob character in it is a pattern itself and is expanded first; the last
  component is matched against the names of each directory, those of the current
  directory when the directory part is empty; and each match is joined to its
  directory.
\<close>

definition glob_path :: "filesystem \<Rightarrow> string \<Rightarrow> string list" where
  "glob_path fs pathname =
     (let (dirname, basename) = os_path_split pathname;
          dirs = (if dirname \<noteq> pathname \<and> has_magic dirname then expand fs dirname
                  else [dirname])
      in concat (map (\<lambda>d. map (os_path_join d)
                            (glob (listdir fs (if d = [] then ''.'' else d)) basename))
                   dirs))"

text \<open>
  \<open>_link_boundary_files\<close>. \<open>boundary_filelist\<close> is the source's \<open>filelist\<close> after the
  \<open>isfile\<close> filter; \<open>link_loop\<close> is the comprehension that links \<open>filelist[idx]\<close> as
  \<open>GRIBFILE.\<close> followed by \<open>linkext[idx]\<close>, one index after the other, and stops at the
  first exception with the links made so far in place.
\<close>

definition boundary_filelist :: "filesystem \<Rightarrow> string \<Rightarrow> string list" where
  "boundary_filelist fs boundary_dir =
     filter (\<lambda>fl. isfile fs fl) (glob_path fs (os_path_join boundary_dir ''*''))"

fun link_loop ::
  "nat list \<Rightarrow> string list \<Rightarrow> string list \<Rightarrow> directory \<Rightarrow> (error + unit) \<times> directory" where
  "link_loop [] filelist linkext wd = (Inr (), wd)"
| "link_loop (idx # rest) filelist linkext wd =
     (if idx < length filelist \<and> idx < length linkext then
        (case os_symlink (filelist ! idx) (''GRIBFILE.'' @ linkext ! idx) wd of
           (Inl e, wd') \<Rightarrow> (Inl e, wd')
         | (Inr u, wd') \<Rightarrow> link_loop rest filelist linkext wd')
      else (Inl IndexError, wd))"

definition link_boundary_files ::
  "filesystem \<Rightarrow> string \<Rightarrow> directory \<Rightarrow> (error + unit) \<times> directory" where
  "link_boundary_files fs boundary_dir wd =
     (let filelist = boundary_filelist fs boundary_dir
      in if length filelist = 0 then
           (Inl (IOError ''linking boundary files failed, no files found to link''), wd)
         else
           (case get_ext_list (length filelist) of
              Inl e \<Rightarrow> (Inl e, wd)
            | Inr linkext \<Rightarrow> link_loop [0..<length filelist] filelist linkext wd))"

text \<open>
  The claim's side of the linking: the regular files directly under a directory, in
  listing order, directories excluded; and those of them whose names do not begin with
  a dot, the empty directory name standing for the current directory.
\<close>

definition regular_files :: "filesystem \<Rightarrow> string \<Rightarrow> string list" where
  "regular_files fs dir =
     filter (\<lambda>path. path \<in> set (regular fs)) (map (os_path_join dir) (listdir fs dir))"

definition visible_regular_files :: "filesystem \<Rightarrow> string \<Rightarrow> string list" where
  "visible_regular_files fs dir =
     filter (\<lambda>path. path \<in> set (regular fs))
       (map (os_path_join dir)
          (filter (\<lambda>name. take 1 name \<noteq> ''.'')
             (listdir fs (if dir = [] then ''.'' else dir))))"

text \<open>
  The design document files both exceptions of \<open>_prepare_namelist\<close>, the \<open>ValueError\<close>
  for the domain count and the \<open>TypeError\<close> for the dates, under one kind,
  \<open>ConfigurationError\<close>.
\<close>

definition is_configuration_error :: "error \<Rightarrow> bool" where
  "is_configuration_error e =
     (case e of ValueError m \<Rightarrow> True | TypeError m \<Rightarrow> True | _ \<Rightarrow> False)"

text \<open>
  A file system whose directory \<open>/data/gfs\<close> holds \<open>n\<close> regular files, \<open>gfs.f0\<close>,
  \<open>gfs.f1\<close> and so on, for the behaviour of the linking on large directories.
\<close>

definition archive_name :: "nat \<Rightarrow> string" where
  "archive_name i = ''gfs.f'' @ str_nat i"

definition archive_path :: "nat \<Rightarrow> string" where
  "archive_path i = ''/data/gfs/'' @ archive_name i"

definition archive :: "nat \<Rightarrow> filesystem" where
  "archive n =
     \<lparr>directories = [(''/data/gfs'', map archive_name [0..<n])],
      regular = map archive_path [0..<n],
      expansions = []\<rparr>"

section \<open>wrfpy.py: rendering templates\<close>

text \<open>
  A template of \<open>wrfpy.py\<close> is a triple-quoted string; it is written here as the list of
  its lines, \<open>py_lines\<close> ending each with a newline. \<open>py_format\<close> is
  \<open>template.format(**context)\<close> for the replacement fields the templates use, a name
  between braces. The scan goes through the template once, \<open>py_format_from\<close> carrying
  the name of the field it is inside of, if any: a doubled brace stands for the brace
  itself, a single brace or an unclosed field is a \<open>ValueError\<close>, a name missing from
  the context a \<open>KeyError\<close>; the values of the context are given as the strings they
  format to.
\<close>

definition newline :: char where
  "newline = CHR 0x0A"

definition py_lines :: "string list \<Rightarrow> string" where
  "py_lines ls = concat (map (\<lambda>l. l @ [newline]) ls)"

fun py_format_from ::
  "string option \<Rightarrow> string \<Rightarrow> (string \<times> string) list \<Rightarrow> error + string" where
  "py_format_from None [] context = Inr []"
| "py_format_from (Some name) [] context =
     Inl (ValueError ''expected '}' before end of string'')"
| "py_format_from (Some name) (c # cs) context =
     (if c = CHR ''}'' then
        (case map_of context name of
           None \<Rightarrow> Inl (KeyError name)
         | Some v \<Rightarrow>
             (case py_format_from None cs context of
                Inl e \<Rightarrow> Inl e
              | Inr r \<Rightarrow> Inr (v @ r)))
      else py_format_from (Some (name @ [c])) cs context)"
| "py_format_from None (c # cs) context =
     (if c = CHR ''{'' then
        (case cs of
           [] \<Rightarrow> Inl (ValueError ''Single '{' encountered in format string'')
         | d # ds \<Rightarrow>
             if d = CHR ''{'' then
               (case py_format_from None ds context of
                  Inl e \<Rightarrow> Inl e
                | Inr r \<Rightarrow> Inr (CHR ''{'' # r))
             else py_format_from (Some []) cs context)
      else if c = CHR ''}'' then
        (case cs of
           [] \<Rightarrow> Inl (ValueError ''Single '}' encountered in format string'')
         | d # ds \<Rightarrow>
             if d = CHR ''}'' then
               (case py_format_from None ds context of
                  Inl e \<Rightarrow> Inl e
                | Inr r \<Rightarrow> Inr (CHR ''}'' # r))
             else Inl (ValueError ''Single '}' encountered in format string''))
      else
        (case py_format_from None cs context of
           Inl e \<Rightarrow> Inl e
         | Inr r \<Rightarrow> Inr (c # r)))"

definition py_format :: "string \<Rightarrow> (string \<times> string) list \<Rightarrow> error + string" where
  "py_format template context = py_format_from None template context"


fun str_split :: "char \<Rightarrow> string \<Rightarrow> string list" where
  "str_split sep [] = [[]]"
| "str_split sep (c # cs) =
     (if c = sep then [] # str_split sep cs
      else (case str_split sep cs of
              [] \<Rightarrow> [[c]]
            | part # parts \<Rightarrow> (c # part) # parts))"


definition str_int :: "int \<Rightarrow> string" where
  "str_int i = (if i < 0 then CHR ''-'' # str_nat (nat (- i)) else str_nat (nat i))"

section \<open>wrfpy.py: the configuration\<close>

text \<open>
  \<open>self.config\<close> is a dictionary of dictionaries, loaded from \<open>config.json\<close> by the
  configuration store (\<open>config.py\<close>, not among the sources) and taken here as it is
  read: sections of settings, \<open>getitem2\<close> the double subscript
  \<open>self.config[section][key]\<close> with the \<open>KeyError\<close> of either step. The settings read
  here are paths, a date and a count of hours; they are given as the strings that
  \<open>format\<close> and \<open>open\<close> receive, the empty string the one that counts as false. The
  start date goes through \<open>utils.return_validate\<close>, not among the sources either: it is
  a parameter of \<open>scheduling\<close>, from the date string to the datetime or to the error it
  raises. The files that \<open>open\<close> can read are listed with their contents; a path that is
  not listed is the \<open>IOError\<close> of \<open>open\<close>.
\<close>

type_synonym settings = "(string \<times> string) list"

type_synonym config = "(string \<times> settings) list"

definition getitem2 :: "config \<Rightarrow> string \<Rightarrow> string \<Rightarrow> error + string" where
  "getitem2 config section key =
     (case getitem config section of
        Inl e \<Rightarrow> Inl e
      | Inr entries \<Rightarrow> getitem entries key)"


section \<open>wrfpy.py: the scheduling section\<close>

text \<open>
  \<open>_scheduling\<close>. The graph lines of the two cycles are named, to be read as graphs below;
  the template is the source's, line for line.
\<close>

definition initial_graph :: "string list" where
  "initial_graph =
     [''        wrf_init => wrf_real => wrfda => wrf_run'',
      ''        wrf_init => obsproc_init => obsproc_run'',
      ''        obsproc_run => wrfda'']"

definition repeat_graph :: "string list" where
  "repeat_graph =
     [''        wrf_run[-PT2H] => wrf_init => wrf_real => wrfda => copy_urb => wrf_run'',
      ''        wrf_init => obsproc_init => obsproc_run'',
      ''        obsproc_run => wrfda'']"

definition scheduling_template :: string where
  \<open>scheduling_template = py_lines
     ([''[scheduling]'',
       ''  initial cycle point = {{{{ START }}}}'',
       ''  final cycle time   = {{{{ STOP }}}}'',
       ''  [[dependencies]]'',
       ''    # Initial cycle point'',
       ''    [[[R1/T{start_hour}]]]'',
       ''      graph = """'']
      @ initial_graph @
      [''      """'',
       ''    # Repeat every {incr_hour} hours, starting {incr_hour} hours after initial cylce point'',
       ''    [[[+PT{incr_hour}H/PT{incr_hour}H]]]'',
       ''      graph = """'']
      @ repeat_graph @
      [''      """'',
       ''''])\<close>

definition scheduling ::
  "(string \<Rightarrow> error + datetime) \<Rightarrow> config \<Rightarrow> error + string" where
  "scheduling return_validate config =
     (case getitem2 config ''options_general'' ''date_start'' of
        Inl e \<Rightarrow> Inl e
      | Inr date_start \<Rightarrow>
          (case return_validate date_start of
             Inl e \<Rightarrow> Inl e
           | Inr validated \<Rightarrow>
               (let start_hour = zfill 2 (str_nat (hour validated))
                in case getitem2 config ''options_general'' ''run_hours'' of
                     Inl e \<Rightarrow> Inl e
                   | Inr incr_hour \<Rightarrow>
                       py_format scheduling_template
                         [(''start_hour'', start_hour), (''incr_hour'', incr_hour)])))"

text \<open>
  Reading a graph section: a line is a chain of task names joined by \<open>=>\<close>, each arrow
  an edge from the task on its left to the task on its right.
\<close>

definition chain_nodes :: "string \<Rightarrow> string list" where
  "chain_nodes line = filter (\<lambda>w. w \<noteq> [] \<and> w \<noteq> ''=>'') (str_split (CHR '' '') line)"

definition chain_edges :: "string list \<Rightarrow> (string \<times> string) list" where
  "chain_edges nodes = zip nodes (tl nodes)"

definition graph_nodes :: "string list \<Rightarrow> string list" where
  "graph_nodes graph = concat (map chain_nodes graph)"

definition graph_edges :: "string list \<Rightarrow> (string \<times> string) list" where
  "graph_edges graph = concat (map (\<lambda>line. chain_edges (chain_nodes line)) graph)"

text \<open>
  The offset of \<open>k\<close> cycle points back, in the notation of the graph, when the cycle
  repeats every \<open>incr_hour\<close> hours.
\<close>

definition cycles_back :: "int \<Rightarrow> int \<Rightarrow> string" where
  "cycles_back k incr_hour = ''[-PT'' @ str_int (k * incr_hour) @ ''H]''"

section \<open>wrfpy.py: the runtime blocks\<close>













section \<open>Properties of the extension list\<close>

lemma length_ascii_uppercase: "length ascii_uppercase = 26"
  by (simp add: ascii_uppercase_def)

lemma length_ext: "length ext = 26"
  by (simp add: ext_def length_ascii_uppercase)

lemma ext_nth: "i < 26 \<Longrightarrow> ext ! i = [ascii_uppercase ! i]"
  by (simp add: ext_def length_ascii_uppercase)

lemma ascii_uppercase_sorted: "sorted_wrt (<) ascii_uppercase"
  by (simp add: ascii_uppercase_def)

lemma ascii_uppercase_mono:
  "i < j \<Longrightarrow> j < 26 \<Longrightarrow> ascii_uppercase ! i < ascii_uppercase ! j"
  using sorted_wrt_nth_less [OF ascii_uppercase_sorted, of i j]
  by (simp add: length_ascii_uppercase)

lemma name3_eq:
  "i1 < 26 \<Longrightarrow> i2 < 26 \<Longrightarrow> i3 < 26 \<Longrightarrow>
   name3 i1 i2 i3 = [ascii_uppercase ! i3, ascii_uppercase ! i2, ascii_uppercase ! i1]"
  by (simp add: name3_def ext_nth)

text \<open>The identifiers are ordered as the counters are, most significant first.\<close>

lemma name3_less:
  assumes "i1 < 26" "i2 < 26" "i3 < 26" "j1 < 26" "j2 < 26" "j3 < 26"
    and "i3 < j3 \<or> (i3 = j3 \<and> (i2 < j2 \<or> (i2 = j2 \<and> i1 < j1)))"
  shows "name3 i1 i2 i3 < name3 j1 j2 j3"
  using assms by (auto simp: name3_eq ascii_uppercase_mono)

lemma the_list_case: "(case acc of None \<Rightarrow> [] | Some l \<Rightarrow> l) = the_list acc"
  by (cases acc) simp_all

text \<open>One iteration, with the bounds of the alphabet evaluated.\<close>

lemma ext_loop_step:
  assumes "i1 < 26" "i2 < 26" "i3 < 26"
  shows "ext_loop (Suc n) i1 i2 i3 acc =
    (let acc' = Some ((case acc of None \<Rightarrow> [] | Some l \<Rightarrow> l) @ [name3 i1 i2 i3]) in
     if i1 < 25 then ext_loop n (i1 + 1) i2 i3 acc'
     else if i2 < 25 then ext_loop n 1 (i2 + 1) i3 acc'
     else if i3 < 25 then ext_loop n 1 1 (i3 + 1) acc'
     else Inl (IOError ''Too many files to link''))"
  using assms
  by (cases acc) (auto simp: Let_def length_ext length_ascii_uppercase name3_def)

declare ext_loop.simps(2) [simp del]

text \<open>
  Every iteration lowers \<open>remaining\<close> by one, and the iteration that finds it at one
  raises: a loop asked for at least \<open>remaining\<close> iterations never returns a list.
\<close>

lemma ext_loop_overflow:
  "i1 < 26 \<Longrightarrow> i2 < 26 \<Longrightarrow> i3 < 26 \<Longrightarrow> remaining i1 i2 i3 \<le> n \<Longrightarrow>
   ext_loop n i1 i2 i3 acc = Inl (IOError ''Too many files to link'')"
proof (induction n arbitrary: i1 i2 i3 acc)
  case 0
  then show ?case by (simp add: remaining_def)
next
  case (Suc n)
  note step = ext_loop_step [OF Suc.prems(1-3), of n acc, unfolded Let_def]
  consider (a) "i1 < 25" | (b) "i1 = 25" "i2 < 25" | (c) "i1 = 25" "i2 = 25" "i3 < 25"
    | (d) "i1 = 25" "i2 = 25" "i3 = 25"
    using Suc.prems by linarith
  then show ?case
  proof cases
    case a
    have "remaining (i1 + 1) i2 i3 \<le> n" using Suc.prems a by (simp add: remaining_def)
    with a Suc.prems show ?thesis unfolding step by (simp add: Suc.IH)
  next
    case b
    have "remaining 1 (i2 + 1) i3 \<le> n" using Suc.prems b by (simp add: remaining_def)
    with b Suc.prems show ?thesis unfolding step by (simp add: Suc.IH)
  next
    case c
    have "remaining 1 1 (i3 + 1) \<le> n" using Suc.prems c by (simp add: remaining_def)
    with c Suc.prems show ?thesis unfolding step by (simp add: Suc.IH)
  next
    case d
    then show ?thesis unfolding step by simp
  qed
qed

text \<open>
  Below that bound the loop returns: the list it was given, then one identifier per
  iteration, starting with the current one and strictly increasing.
\<close>

lemma ext_loop_returns:
  "i1 < 26 \<Longrightarrow> i2 < 26 \<Longrightarrow> i3 < 26 \<Longrightarrow> Suc n < remaining i1 i2 i3 \<Longrightarrow>
   \<exists>l. ext_loop (Suc n) i1 i2 i3 acc = Inr (Some (the_list acc @ name3 i1 i2 i3 # l))
     \<and> length l = n \<and> sorted_wrt (<) (name3 i1 i2 i3 # l)"
proof (induction n arbitrary: i1 i2 i3 acc)
  case 0
  then show ?case
    by (auto simp: ext_loop_step Let_def the_list_case remaining_def)
next
  case (Suc n)
  let ?x = "name3 i1 i2 i3"
  let ?acc' = "Some (the_list acc @ [?x])"
  note step = ext_loop_step [OF Suc.prems(1-3), of "Suc n" acc, unfolded Let_def the_list_case]
  consider (a) "i1 < 25" | (b) "i1 = 25" "i2 < 25" | (c) "i1 = 25" "i2 = 25" "i3 < 25"
    | (d) "i1 = 25" "i2 = 25" "i3 = 25"
    using Suc.prems by linarith
  then obtain j1 j2 j3 where next_state:
      "ext_loop (Suc (Suc n)) i1 i2 i3 acc = ext_loop (Suc n) j1 j2 j3 ?acc'"
      "j1 < 26" "j2 < 26" "j3 < 26" "Suc n < remaining j1 j2 j3"
      "?x < name3 j1 j2 j3"
  proof cases
    case a
    show ?thesis
    proof (rule that [of "i1 + 1" i2 i3])
      show "ext_loop (Suc (Suc n)) i1 i2 i3 acc = ext_loop (Suc n) (i1 + 1) i2 i3 ?acc'"
        using step a by simp
      show "?x < name3 (i1 + 1) i2 i3" using Suc.prems a by (intro name3_less) auto
    qed (use Suc.prems a in \<open>auto simp: remaining_def\<close>)
  next
    case b
    show ?thesis
    proof (rule that [of 1 "i2 + 1" i3])
      show "ext_loop (Suc (Suc n)) i1 i2 i3 acc = ext_loop (Suc n) 1 (i2 + 1) i3 ?acc'"
        using step b by simp
      show "?x < name3 1 (i2 + 1) i3" using Suc.prems b by (intro name3_less) auto
    qed (use Suc.prems b in \<open>auto simp: remaining_def\<close>)
  next
    case c
    show ?thesis
    proof (rule that [of 1 1 "i3 + 1"])
      show "ext_loop (Suc (Suc n)) i1 i2 i3 acc = ext_loop (Suc n) 1 1 (i3 + 1) ?acc'"
        using step c by simp
      show "?x < name3 1 1 (i3 + 1)" using Suc.prems c by (intro name3_less) auto
    qed (use Suc.prems c in \<open>auto simp: remaining_def\<close>)
  next
    case d
    then have False using Suc.prems by (simp add: remaining_def)
    then show ?thesis ..
  qed
  from Suc.IH [OF next_state(2-5), of ?acc'] obtain l where l:
    "ext_loop (Suc n) j1 j2 j3 ?acc' = Inr (Some (the_list ?acc' @ name3 j1 j2 j3 # l))"
    "length l = n" "sorted_wrt (<) (name3 j1 j2 j3 # l)"
    by blast
  have "sorted_wrt (<) (?x # name3 j1 j2 j3 # l)"
    using l(3) next_state(6) by (auto intro: less_trans)
  with l next_state(1) show ?case
    by (intro exI [of _ "name3 j1 j2 j3 # l"]) simp
qed

text \<open>
  What the code does: from the start state \<open>remaining\<close> is 16276, so \<open>_get_ext_list\<close> returns
  for 1 to 16275 files (that many distinct identifiers, in increasing order, the first of
  them AAA) and raises from 16276 files on.
\<close>

lemma get_ext_list_overflow:
  "16276 \<le> num \<Longrightarrow> get_ext_list num = Inl (IOError ''Too many files to link'')"
  by (simp add: get_ext_list_def ext_loop_overflow remaining_def)

lemma get_ext_list_returns:
  assumes "1 \<le> num" "num < 16276"
  shows "\<exists>l. get_ext_list num = Inr l \<and> length l = num \<and> sorted_wrt (<) l \<and> distinct l
           \<and> hd l = ''AAA''"
proof -
  obtain n where n: "num = Suc n" using assms(1) by (cases num) auto
  have "Suc n < remaining 0 0 0" using assms(2) n by (simp add: remaining_def)
  from ext_loop_returns [OF _ _ _ this, of None] obtain l where l:
    "ext_loop (Suc n) 0 0 0 None = Inr (Some (name3 0 0 0 # l))" "length l = n"
    "sorted_wrt (<) (name3 0 0 0 # l)"
    by auto
  have "name3 0 0 0 = ''AAA''" by (simp add: name3_eq ascii_uppercase_def)
  moreover have "distinct (name3 0 0 0 # l)"
    using l(3) strict_sorted_iff by blast
  ultimately show ?thesis using l n
    by (intro exI [of _ "name3 0 0 0 # l"]) (simp add: get_ext_list_def)
qed

lemma get_ext_list_length: "get_ext_list num = Inr l \<Longrightarrow> length l = num"
proof -
  assume r: "get_ext_list num = Inr l"
  have "num \<noteq> 0"
  proof
    assume "num = 0"
    then show False using r by (simp add: get_ext_list_def)
  qed
  moreover have "num < 16276"
    using r get_ext_list_overflow [of num] by (cases "num < 16276") auto
  ultimately show ?thesis using get_ext_list_returns [of num] r by auto
qed

text \<open>
  Claim C1. For every n from 1 below 16900 the allocator returns n distinct identifiers in
  increasing order, and it fails only from its capacity on. The code does not: asked for
  16276 identifiers, which is below 16900, \<open>_get_ext_list\<close> raises
  \<open>IOError('Too many files to link')\<close>. Its docstring lists the extensions as
  AAA, AAB, AAC... ABA, ABB...,BAA, BAB..., the full three-letter space; the reset of
  \<open>i1\<close> and \<open>i2\<close> to 1 instead of 0 skips every identifier with an A in the second or third
  place after the first block and leaves 16276 states.
\<close>

theorem get_ext_list_16276_raises:
  "get_ext_list 16276 = Inl (IOError ''Too many files to link'')"
  by (rule get_ext_list_overflow) simp

text \<open>
  Claim C2. The first identifier is AAA and the 27th, the first after the trailing letter
  has run through the alphabet, is ABA. In the code the 27th identifier is ABB: the
  trailing counter restarts at 1. The docstring of \<open>_get_ext_list\<close> has ABA follow the
  first block, as the claim does.
\<close>

theorem get_ext_list_27:
  "get_ext_list 27 = Inr
     [''AAA'', ''AAB'', ''AAC'', ''AAD'', ''AAE'', ''AAF'', ''AAG'', ''AAH'', ''AAI'',
      ''AAJ'', ''AAK'', ''AAL'', ''AAM'', ''AAN'', ''AAO'', ''AAP'', ''AAQ'', ''AAR'',
      ''AAS'', ''AAT'', ''AAU'', ''AAV'', ''AAW'', ''AAX'', ''AAY'', ''AAZ'', ''ABB'']"
  by code_simp

section \<open>Properties of the namelist patch\<close>

declare str_nat.simps [simp del]

lemma py_repeat_single: "py_repeat [x] n = replicate (nat n) x"
  by (induction "nat n" arbitrary: n) (simp_all add: py_repeat_def)

lemma stored_field_written:
  "stored_field (AList.update f (Regular (Namelist nml)) wd) f grp key =
     (case map_of nml grp of None \<Rightarrow> None | Some g \<Rightarrow> map_of g key)"
  by (simp add: stored_field_def update_conv')

text \<open>Past the two checks, with both dates formatted, the patched namelist is written.\<close>

lemma prepare_namelist_on_writes:
  assumes "map_of wd ''namelist.wps'' = Some (Regular (Namelist nml))"
    and "map_of nml ''share'' = Some share"
    and "map_of share ''max_dom'' = Some v"
    and "isinstance_int v" and "0 < int_value v"
    and "format_time py (Datetime s) = Inr start"
    and "format_time py (Datetime e) = Inr end"
  shows "prepare_namelist_on py (Datetime s) (Datetime e) outcome wd =
     nml_write
       (AList.update ''share''
          (AList.update ''end_date'' (VList (py_repeat [VStr end] (int_value v)))
             (AList.update ''start_date'' (VList (py_repeat [VStr start] (int_value v)))
                share))
          nml)
       ''namelist.wps'' outcome (silentremove ''namelist.wps'' wd)"
  using assms
  by (simp add: prepare_namelist_on_def nml_read_def getitem_def Let_def del: format_time.simps)


lemma prepare_namelist_invalid_max_dom:
  assumes "map_of wd ''namelist.wps'' = Some (Regular (Namelist nml))"
    and "map_of nml ''share'' = Some share"
    and "map_of share ''max_dom'' = Some v"
    and "\<not> isinstance_int v \<or> int_value v < 1"
  shows "prepare_namelist_on py datestart dateend outcome wd =
     (Inl (ValueError '''domains_max_dom' namelist variable should be an integer>0''), wd)"
  using assms by (auto simp: prepare_namelist_on_def nml_read_def getitem_def)

lemma prepare_namelist_invalid_time:
  assumes "map_of wd ''namelist.wps'' = Some (Regular (Namelist nml))"
    and "map_of nml ''share'' = Some share"
    and "map_of share ''max_dom'' = Some v"
    and "isinstance_int v" and "1 \<le> int_value v"
    and "\<not> isinstance_datetime datestart \<or> \<not> isinstance_datetime dateend"
  shows "prepare_namelist_on py datestart dateend outcome wd =
     (Inl (TypeError ''datestart and dateend must be an instance of datetime''), wd)"
  using assms by (auto simp: prepare_namelist_on_def nml_read_def getitem_def)

text \<open>
  The text the library produces is the design document's format whenever the datetime
  is one the constructor admits and its year has four digits.
\<close>

lemma str_nat_digit: "n < 10 \<Longrightarrow> str_nat n = [digit n]"
  by (simp add: str_nat.simps digit_def)

lemma str_nat_two_digits: "10 \<le> n \<Longrightarrow> n < 100 \<Longrightarrow> str_nat n = two_digits n"
proof -
  assume n: "10 \<le> n" "n < 100"
  then have "n div 10 < 10" by simp
  then show ?thesis
    using n by (subst str_nat.simps) (simp add: str_nat_digit two_digits_def digit_def)
qed

lemma zfill_two_digits: "n < 100 \<Longrightarrow> zfill 2 (str_nat n) = two_digits n"
proof (cases "n < 10")
  case True
  then show ?thesis
    by (simp add: str_nat_digit zfill_def two_digits_def digit_def)
next
  case False
  assume "n < 100"
  with False show ?thesis
    by (simp add: str_nat_two_digits zfill_def two_digits_def)
qed

lemma str_nat_three_digits:
  assumes "100 \<le> n" "n < 1000"
  shows "str_nat n = [digit (n div 100), digit (n div 10 mod 10), digit (n mod 10)]"
proof -
  have d: "10 \<le> n div 10" "n div 10 < 100" using assms by simp_all
  have "n div 10 div 10 = n div 100" by (simp add: div_mult2_eq)
  then show ?thesis
    using assms
    by (subst str_nat.simps) (simp add: str_nat_two_digits [OF d] two_digits_def digit_def)
qed

lemma str_nat_four_digits:
  assumes "1000 \<le> n" "n < 10000"
  shows "str_nat n = four_digits n"
proof -
  have d: "100 \<le> n div 10" "n div 10 < 1000" using assms by simp_all
  have "n div 10 div 100 = n div 1000" "n div 10 div 10 = n div 100"
    by (simp_all add: div_mult2_eq)
  then show ?thesis
    using assms
    by (subst str_nat.simps) (simp add: str_nat_three_digits [OF d] four_digits_def digit_def)
qed

lemma strftime_timestamp_text:
  assumes "valid_datetime dt" and "1000 \<le> year dt"
  shows "strftime dt = timestamp_text dt"
proof -
  have "year dt < 10000" "month dt < 100" "hour dt < 100" "minute dt < 100" "second dt < 100"
    using assms(1) by (simp_all add: valid_datetime_def)
  moreover have "day dt < 100"
    using assms(1) by (auto simp: valid_datetime_def days_in_month_def split: if_splits)
  ultimately show ?thesis
    using assms(2)
    by (simp add: strftime_def timestamp_text_def str_nat_four_digits zfill_two_digits)
qed

lemma format_time_timestamp_text:
  assumes "valid_datetime dt" and "four_digit_year py dt"
  shows "format_time py (Datetime dt) = Inr (timestamp_text dt)"
proof -
  have "1000 \<le> year dt" "py = Python2 \<longrightarrow> 1900 \<le> year dt"
    using assms(2) by (cases py; simp add: four_digit_year_def)+
  then show ?thesis
    using strftime_timestamp_text [OF assms(1)] by auto
qed



lemma timestamp_text_start:
  "timestamp_text \<lparr>year = 2014, month = 7, day = 27, hour = 0, minute = 0, second = 0\<rparr>
     = ''2014-07-27_00:00:00''"
  by code_simp

lemma timestamp_text_end:
  "timestamp_text \<lparr>year = 2014, month = 7, day = 27, hour = 6, minute = 0, second = 0\<rparr>
     = ''2014-07-27_06:00:00''"
  by code_simp

lemma valid_datetime_start:
  "valid_datetime \<lparr>year = 2014, month = 7, day = 27, hour = 0, minute = 0, second = 0\<rparr>"
  by (simp add: valid_datetime_def days_in_month_def)

lemma valid_datetime_end:
  "valid_datetime \<lparr>year = 2014, month = 7, day = 27, hour = 6, minute = 0, second = 0\<rparr>"
  by (simp add: valid_datetime_def days_in_month_def)

text \<open>
  Claim C3. The claim has every well-formed pair of datetimes written as
  \<open>YYYY-MM-DD_HH:MM:SS\<close>. The datetime 0999-01-02 03:04:05 is well-formed, and the
  code does not write it so: under Python 3 the stored string is
  \<open>999-01-02_03:04:05\<close>, the year unpadded, and under Python 2 \<open>strftime\<close> raises a
  \<open>ValueError\<close> and nothing is written.
\<close>

theorem prepare_namelist_year_999:
  "valid_datetime \<lparr>year = 999, month = 1, day = 2, hour = 3, minute = 4, second = 5\<rparr>
   \<and> stored_field
       (snd (prepare_namelist_on Python3
          (Datetime \<lparr>year = 999, month = 1, day = 2, hour = 3, minute = 4, second = 5\<rparr>)
          (Datetime \<lparr>year = 999, month = 1, day = 2, hour = 9, minute = 4, second = 5\<rparr>)
          Completes
          [(''namelist.wps'', Regular (Namelist [(''share'', [(''max_dom'', VInt 1)])]))]))
       ''namelist.wps'' ''share'' ''start_date''
     = Some (VList [VStr ''999-01-02_03:04:05''])
   \<and> prepare_namelist_on Python2
       (Datetime \<lparr>year = 999, month = 1, day = 2, hour = 3, minute = 4, second = 5\<rparr>)
       (Datetime \<lparr>year = 999, month = 1, day = 2, hour = 9, minute = 4, second = 5\<rparr>)
       Completes
       [(''namelist.wps'', Regular (Namelist [(''share'', [(''max_dom'', VInt 1)])]))]
     = (Inl (ValueError
          ''year=999 is before 1900; the datetime strftime() methods require year >= 1900''),
        [(''namelist.wps'', Regular (Namelist [(''share'', [(''max_dom'', VInt 1)])]))])"
proof -
  have y: "str_nat 999 = ''999''" by code_simp
  have s: "strftime \<lparr>year = 999, month = 1, day = 2, hour = 3, minute = 4, second = 5\<rparr>
      = ''999-01-02_03:04:05''" by code_simp
  show ?thesis
    by (simp add: valid_datetime_def days_in_month_def prepare_namelist_on_def nml_read_def
        getitem_def nml_write_def silentremove_def stored_field_def py_repeat_def y
        s [simplified])
qed

text \<open>
  Claim C3 as amended. When the namelist at \<open>namelist.wps\<close> has an integer
  \<open>share.max_dom\<close> of \<open>d\<close>, at least 1, and both arguments are well-formed datetimes of
  a year the interpreter formats with four digits (from 1000 on under Python 3, from
  1900 on under Python 2), \<open>_prepare_namelist\<close> returns and the namelist stored under
  the same name has \<open>share.start_date\<close> equal to \<open>d\<close> copies of the start time written
  as \<open>YYYY-MM-DD_HH:MM:SS\<close> and \<open>share.end_date\<close> equal to \<open>d\<close> copies of the end time
  written so. The witness is the example of the design document: three domains, from
  2014-07-27 00:00:00 to 06:00:00.
\<close>

theorem prepare_namelist_sets_dates:
  assumes "map_of wd ''namelist.wps'' = Some (Regular (Namelist nml))"
    and "map_of nml ''share'' = Some share"
    and "map_of share ''max_dom'' = Some (VInt d)"
    and "1 \<le> d"
    and "valid_datetime s" and "valid_datetime e"
    and "four_digit_year py s" and "four_digit_year py e"
  shows "\<exists>wd'. prepare_namelist_on py (Datetime s) (Datetime e) Completes wd = (Inr (), wd')
    \<and> stored_field wd' ''namelist.wps'' ''share'' ''start_date''
        = Some (VList (replicate (nat d) (VStr (timestamp_text s))))
    \<and> stored_field wd' ''namelist.wps'' ''share'' ''end_date''
        = Some (VList (replicate (nat d) (VStr (timestamp_text e))))"
proof -
  have "isinstance_int (VInt d)" "0 < int_value (VInt d)" using assms(4) by simp_all
  from prepare_namelist_on_writes [OF assms(1-3) this
      format_time_timestamp_text [OF assms(5,7)] format_time_timestamp_text [OF assms(6,8)]]
  show ?thesis
    by (simp add: nml_write_def stored_field_written update_conv' py_repeat_single)
qed

theorem prepare_namelist_sets_dates_witness:
  "\<exists>wd'. prepare_namelist_on Python2
       (Datetime \<lparr>year = 2014, month = 7, day = 27, hour = 0, minute = 0, second = 0\<rparr>)
       (Datetime \<lparr>year = 2014, month = 7, day = 27, hour = 6, minute = 0, second = 0\<rparr>)
       Completes
       [(''namelist.wps'', Regular (Namelist
          [(''share'', [(''wrf_core'', VStr ''ARW''), (''max_dom'', VInt 3),
                        (''start_date'', VList [VStr ''2006-08-16_12:00:00''])]),
           (''geogrid'', [(''parent_id'', VList [VInt 1, VInt 1, VInt 2])])]))]
     = (Inr (), wd')
    \<and> stored_field wd' ''namelist.wps'' ''share'' ''start_date''
        = Some (VList [VStr ''2014-07-27_00:00:00'', VStr ''2014-07-27_00:00:00'',
                       VStr ''2014-07-27_00:00:00''])
    \<and> stored_field wd' ''namelist.wps'' ''share'' ''end_date''
        = Some (VList [VStr ''2014-07-27_06:00:00'', VStr ''2014-07-27_06:00:00'',
                       VStr ''2014-07-27_06:00:00''])"
  using prepare_namelist_sets_dates
    [of "[(''namelist.wps'', Regular (Namelist
          [(''share'', [(''wrf_core'', VStr ''ARW''), (''max_dom'', VInt 3),
                        (''start_date'', VList [VStr ''2006-08-16_12:00:00''])]),
           (''geogrid'', [(''parent_id'', VList [VInt 1, VInt 1, VInt 2])])]))]"
        "[(''share'', [(''wrf_core'', VStr ''ARW''), (''max_dom'', VInt 3),
                        (''start_date'', VList [VStr ''2006-08-16_12:00:00''])]),
           (''geogrid'', [(''parent_id'', VList [VInt 1, VInt 1, VInt 2])])]"
        "[(''wrf_core'', VStr ''ARW''), (''max_dom'', VInt 3),
                        (''start_date'', VList [VStr ''2006-08-16_12:00:00''])]"
        3
        "\<lparr>year = 2014, month = 7, day = 27, hour = 0, minute = 0, second = 0\<rparr>"
        "\<lparr>year = 2014, month = 7, day = 27, hour = 6, minute = 0, second = 0\<rparr>"
        Python2]
  by (simp add: timestamp_text_start timestamp_text_end valid_datetime_start
      valid_datetime_end four_digit_year_def numeral_3_eq_3)

text \<open>
  Claim C4. The claim has the patch fail whenever \<open>share.max_dom\<close> is not an integer,
  and fail with InvalidTimeType whenever a time is no timestamp. The boolean \<open>True\<close> is
  not of integer type, and the patch accepts it; and with a domain count of 0 and a
  string for the start time the exception is the \<open>ValueError\<close> of the domain count, not
  the \<open>TypeError\<close> of the times.
\<close>

theorem prepare_namelist_true_and_order:
  "\<not> integer_typed (VBool True)
   \<and> fst (prepare_namelist_on Python2
       (Datetime \<lparr>year = 2014, month = 7, day = 27, hour = 0, minute = 0, second = 0\<rparr>)
       (Datetime \<lparr>year = 2014, month = 7, day = 27, hour = 6, minute = 0, second = 0\<rparr>)
       Completes
       [(''namelist.wps'', Regular (Namelist [(''share'', [(''max_dom'', VBool True)])]))])
     = Inr ()
   \<and> fst (prepare_namelist_on Python2 (Str ''2014-07-27'')
       (Datetime \<lparr>year = 2014, month = 7, day = 27, hour = 6, minute = 0, second = 0\<rparr>)
       Completes
       [(''namelist.wps'', Regular (Namelist [(''share'', [(''max_dom'', VInt 0)])]))])
     = Inl (ValueError '''domains_max_dom' namelist variable should be an integer>0'')"
  by (simp add: prepare_namelist_on_def nml_read_def getitem_def nml_write_def
      silentremove_def)

text \<open>
  Claim C4 as amended. With the namelist loaded and \<open>share.max_dom\<close> present: a value
  that is not an instance of \<open>int\<close>, as which a boolean counts, \<open>True\<close> being 1 and
  \<open>False\<close> 0, or that is below 1, makes \<open>_prepare_namelist\<close> raise the \<open>ValueError\<close>
  (InvalidDomainCount); when the domain count has passed, a start or end time that is
  not a datetime makes it raise the \<open>TypeError\<close> (InvalidTimeType); whenever the domain
  count or a time is invalid the exception is of the ConfigurationError kind and the
  working directory is returned as it was, so no date is written.
\<close>

theorem prepare_namelist_rejects:
  assumes "map_of wd ''namelist.wps'' = Some (Regular (Namelist nml))"
    and "map_of nml ''share'' = Some share"
    and "map_of share ''max_dom'' = Some v"
  shows "((\<not> isinstance_int v \<or> int_value v < 1) \<longrightarrow>
            prepare_namelist_on py datestart dateend outcome wd =
              (Inl (ValueError '''domains_max_dom' namelist variable should be an integer>0''),
               wd))
       \<and> (isinstance_int v \<and> 1 \<le> int_value v \<and>
            (\<not> isinstance_datetime datestart \<or> \<not> isinstance_datetime dateend) \<longrightarrow>
            prepare_namelist_on py datestart dateend outcome wd =
              (Inl (TypeError ''datestart and dateend must be an instance of datetime''), wd))
       \<and> ((\<not> isinstance_int v \<or> int_value v < 1) \<or>
            (\<not> isinstance_datetime datestart \<or> \<not> isinstance_datetime dateend) \<longrightarrow>
            (\<exists>e. prepare_namelist_on py datestart dateend outcome wd = (Inl e, wd)
               \<and> is_configuration_error e))"
proof (intro conjI impI)
  assume "\<not> isinstance_int v \<or> int_value v < 1"
  then show "prepare_namelist_on py datestart dateend outcome wd =
      (Inl (ValueError '''domains_max_dom' namelist variable should be an integer>0''), wd)"
    by (rule prepare_namelist_invalid_max_dom [OF assms])
next
  assume "isinstance_int v \<and> 1 \<le> int_value v \<and>
    (\<not> isinstance_datetime datestart \<or> \<not> isinstance_datetime dateend)"
  then show "prepare_namelist_on py datestart dateend outcome wd =
      (Inl (TypeError ''datestart and dateend must be an instance of datetime''), wd)"
    using prepare_namelist_invalid_time [OF assms] by blast
next
  assume bad: "(\<not> isinstance_int v \<or> int_value v < 1) \<or>
    (\<not> isinstance_datetime datestart \<or> \<not> isinstance_datetime dateend)"
  show "\<exists>e. prepare_namelist_on py datestart dateend outcome wd = (Inl e, wd)
      \<and> is_configuration_error e"
  proof (cases "\<not> isinstance_int v \<or> int_value v < 1")
    case True
    from prepare_namelist_invalid_max_dom [OF assms True] show ?thesis
      by (simp add: is_configuration_error_def)
  next
    case False
    with bad have "isinstance_int v" "1 \<le> int_value v"
      "\<not> isinstance_datetime datestart \<or> \<not> isinstance_datetime dateend"
      by auto
    from prepare_namelist_invalid_time [OF assms this] show ?thesis
      by (simp add: is_configuration_error_def)
  qed
qed

theorem prepare_namelist_rejects_witness:
  "prepare_namelist_on Python2
      (Datetime \<lparr>year = 2014, month = 7, day = 27, hour = 0, minute = 0, second = 0\<rparr>)
      (Datetime \<lparr>year = 2014, month = 7, day = 27, hour = 6, minute = 0, second = 0\<rparr>)
      Completes
      [(''namelist.wps'', Regular (Namelist [(''share'', [(''max_dom'', VInt 0)])]))]
    = (Inl (ValueError '''domains_max_dom' namelist variable should be an integer>0''),
       [(''namelist.wps'', Regular (Namelist [(''share'', [(''max_dom'', VInt 0)])]))])
   \<and> prepare_namelist_on Python2
      (Datetime \<lparr>year = 2014, month = 7, day = 27, hour = 0, minute = 0, second = 0\<rparr>)
      (Datetime \<lparr>year = 2014, month = 7, day = 27, hour = 6, minute = 0, second = 0\<rparr>)
      Completes
      [(''namelist.wps'', Regular (Namelist [(''share'', [(''max_dom'', VReal 1.5)])]))]
    = (Inl (ValueError '''domains_max_dom' namelist variable should be an integer>0''),
       [(''namelist.wps'', Regular (Namelist [(''share'', [(''max_dom'', VReal 1.5)])]))])
   \<and> prepare_namelist_on Python2 (Str ''2014-07-27'')
      (Datetime \<lparr>year = 2014, month = 7, day = 27, hour = 6, minute = 0, second = 0\<rparr>)
      Completes
      [(''namelist.wps'', Regular (Namelist [(''share'', [(''max_dom'', VInt 3)])]))]
    = (Inl (TypeError ''datestart and dateend must be an instance of datetime''),
       [(''namelist.wps'', Regular (Namelist [(''share'', [(''max_dom'', VInt 3)])]))])"
  using
    prepare_namelist_rejects
      [of "[(''namelist.wps'', Regular (Namelist [(''share'', [(''max_dom'', VInt 0)])]))]"
          "[(''share'', [(''max_dom'', VInt 0)])]" "[(''max_dom'', VInt 0)]" "VInt 0" Python2
          "Datetime \<lparr>year = 2014, month = 7, day = 27, hour = 0, minute = 0, second = 0\<rparr>"
          "Datetime \<lparr>year = 2014, month = 7, day = 27, hour = 6, minute = 0, second = 0\<rparr>"
          Completes]
    prepare_namelist_rejects
      [of "[(''namelist.wps'', Regular (Namelist [(''share'', [(''max_dom'', VReal 1.5)])]))]"
          "[(''share'', [(''max_dom'', VReal 1.5)])]" "[(''max_dom'', VReal 1.5)]" "VReal 1.5" Python2
          "Datetime \<lparr>year = 2014, month = 7, day = 27, hour = 0, minute = 0, second = 0\<rparr>"
          "Datetime \<lparr>year = 2014, month = 7, day = 27, hour = 6, minute = 0, second = 0\<rparr>"
          Completes]
    prepare_namelist_rejects
      [of "[(''namelist.wps'', Regular (Namelist [(''share'', [(''max_dom'', VInt 3)])]))]"
          "[(''share'', [(''max_dom'', VInt 3)])]" "[(''max_dom'', VInt 3)]" "VInt 3" Python2
          "Str ''2014-07-27''"
          "Datetime \<lparr>year = 2014, month = 7, day = 27, hour = 6, minute = 0, second = 0\<rparr>"
          Completes]
  by simp






section \<open>Properties of cleaning and linking\<close>

lemma fnmatch_star: "fnmatch x ''*''"
  by (induction x) simp_all

lemma glob_star: "glob names ''*'' = filter (\<lambda>x. take 1 x \<noteq> ''.'') names"
  by (simp add: glob_def has_magic_def fnmatch_star)

lemma silentremove_fold:
  "foldl (\<lambda>d filename. silentremove filename d) wd fs = filter (\<lambda>p. fst p \<notin> set fs) wd"
proof (induction fs arbitrary: wd)
  case Nil
  then show ?case by simp
next
  case (Cons f fs)
  have "silentremove f wd = filter (\<lambda>p. fst p \<noteq> f) wd"
    by (auto simp: silentremove_def AList.delete_eq intro: filter_cong)
  then show ?case by (auto simp: Cons.IH intro: filter_cong)
qed

lemma clean_boundaries_wps_eq:
  "clean_boundaries_wps wd =
     filter (\<lambda>p. fst p \<notin> set (glob (map fst wd) ''GRIBFILE.*'') \<and>
                 fst p \<noteq> ''FILE:'' \<and> fst p \<noteq> ''PFILE:'' \<and> fst p \<noteq> ''PRES:'') wd"
proof -
  have exact: "\<And>pat. \<not> has_magic pat \<Longrightarrow>
      x \<in> fst ` set wd \<Longrightarrow> (x \<in> set (glob (map fst wd) pat)) = (x = pat)" for x
    by (auto simp: glob_def)
  have m: "\<not> has_magic ''FILE:''" "\<not> has_magic ''PFILE:''" "\<not> has_magic ''PRES:''"
    by (simp_all add: has_magic_def)
  show ?thesis
    unfolding clean_boundaries_wps_def Let_def silentremove_fold
    by (rule filter_cong) (auto simp: exact [OF m(1)] exact [OF m(2)] exact [OF m(3)])
qed

lemma fnmatch_prefix_star:
  "list_all (\<lambda>p. p \<noteq> CHR ''*'' \<and> p \<noteq> CHR ''?'') lit \<Longrightarrow>
   fnmatch x (lit @ ''*'') = (take (length lit) x = lit)"
proof (induction lit arbitrary: x)
  case Nil
  then show ?case by (simp add: fnmatch_star)
next
  case (Cons p lit)
  then show ?case by (cases x) auto
qed

lemma fnmatch_gribfile: "fnmatch x ''GRIBFILE.*'' = (take 9 x = ''GRIBFILE.'')"
  using fnmatch_prefix_star [of "''GRIBFILE.''" x] by (simp add: eval_nat_numeral)

lemma clean_removes_gribfiles:
  "x \<in> fst ` set (clean_boundaries_wps wd) \<Longrightarrow> take 9 x \<noteq> ''GRIBFILE.''"
proof
  assume x: "x \<in> fst ` set (clean_boundaries_wps wd)" and t: "take 9 x = ''GRIBFILE.''"
  from x have "x \<in> fst ` set wd" "x \<notin> set (glob (map fst wd) ''GRIBFILE.*'')"
    by (auto simp: clean_boundaries_wps_eq)
  moreover have "take 1 x \<noteq> ''.''" using t by (cases x) auto
  ultimately show False using t
    by (auto simp: glob_def has_magic_def fnmatch_gribfile)
qed

text \<open>
  Claim C7. The cleaning step removes every transient file matching \<open>GRIBFILE.*\<close>,
  \<open>FILE:*\<close>, \<open>PFILE:*\<close> and \<open>PRES:*\<close>. The code globs \<open>GRIBFILE.*\<close> with the star but
  \<open>FILE:\<close>, \<open>PFILE:\<close> and \<open>PRES:\<close> without it, so only files named exactly so are
  removed: on a working directory that holds the links and the intermediate files of a
  previous run, \<open>_clean_boundaries_wps\<close> removes the \<open>GRIBFILE\<close> links (in general:
  \<open>clean_removes_gribfiles\<close>) and leaves \<open>FILE:2014-07-27_00\<close>, \<open>PFILE:2014-07-27_00\<close> and
  \<open>PRES:2014-07-27_00\<close> in place.
\<close>

theorem clean_boundaries_wps_leaves_outputs:
  "clean_boundaries_wps
     [(''namelist.wps'', Regular (Namelist [(''share'', [(''max_dom'', VInt 1)])])),
      (''GRIBFILE.AAA'', Symlink ''/data/run1/gfs.t00z.pgrb2.f000''),
      (''GRIBFILE.AAB'', Symlink ''/data/run1/gfs.t00z.pgrb2.f003''),
      (''FILE:2014-07-27_00'', Regular Data),
      (''PFILE:2014-07-27_00'', Regular Data),
      (''PRES:2014-07-27_00'', Regular Data)]
   = [(''namelist.wps'', Regular (Namelist [(''share'', [(''max_dom'', VInt 1)])])),
      (''FILE:2014-07-27_00'', Regular Data),
      (''PFILE:2014-07-27_00'', Regular Data),
      (''PRES:2014-07-27_00'', Regular Data)]"
  by (simp add: clean_boundaries_wps_eq glob_def has_magic_def fnmatch_gribfile)

lemma get_ext_list_error:
  assumes "get_ext_list num = Inl e"
  shows "e = NameError ''list_ext'' \<or> e = IOError ''Too many files to link''"
proof -
  consider "num = 0" | "1 \<le> num" "num < 16276" | "16276 \<le> num" by linarith
  then show ?thesis
  proof cases
    case 1
    then show ?thesis using assms by (simp add: get_ext_list_def)
  next
    case 2
    then show ?thesis using get_ext_list_returns [of num] assms by auto
  next
    case 3
    then show ?thesis using get_ext_list_overflow [of num] assms by simp
  qed
qed

lemma get_ext_list_distinct: "get_ext_list num = Inr l \<Longrightarrow> distinct l"
proof -
  assume r: "get_ext_list num = Inr l"
  have "num \<noteq> 0"
  proof
    assume "num = 0"
    then show False using r by (simp add: get_ext_list_def)
  qed
  moreover have "num < 16276"
    using r get_ext_list_overflow [of num] by (cases "num < 16276") auto
  ultimately show ?thesis using get_ext_list_returns [of num] r by auto
qed

lemma link_loop_error:
  "link_loop idxs filelist linkext wd = (Inl e, wd') \<Longrightarrow>
   e = OSError ''File exists'' \<or> e = IndexError"
proof (induction idxs arbitrary: wd)
  case Nil
  then show ?case by simp
next
  case (Cons idx rest)
  then show ?case
    by (auto simp: os_symlink_def split: if_splits)
qed

text \<open>The links the loop makes from index \<open>k\<close> on, when every name is still free.\<close>

lemma link_loop_links:
  assumes "length linkext = length filelist" and "distinct linkext"
  shows "k \<le> length filelist \<Longrightarrow>
    (\<forall>i. k \<le> i \<and> i < length filelist \<longrightarrow> ''GRIBFILE.'' @ linkext ! i \<notin> fst ` set wd) \<Longrightarrow>
    link_loop [k..<length filelist] filelist linkext wd =
      (Inr (), wd @ map (\<lambda>i. (''GRIBFILE.'' @ linkext ! i, Symlink (filelist ! i)))
                      [k..<length filelist])"
proof (induction "length filelist - k" arbitrary: k wd)
  case 0
  then show ?case by simp
next
  case (Suc m)
  then have k: "k < length filelist" by simp
  let ?wd = "wd @ [(''GRIBFILE.'' @ linkext ! k, Symlink (filelist ! k))]"
  have fresh: "\<forall>i. Suc k \<le> i \<and> i < length filelist \<longrightarrow>
      ''GRIBFILE.'' @ linkext ! i \<notin> fst ` set ?wd"
  proof (intro allI impI)
    fix i assume i: "Suc k \<le> i \<and> i < length filelist"
    then have "linkext ! i \<noteq> linkext ! k"
      using assms k by (simp add: nth_eq_iff_index_eq)
    moreover have "''GRIBFILE.'' @ linkext ! i \<notin> fst ` set wd"
      using Suc.prems(2) i by simp
    ultimately show "''GRIBFILE.'' @ linkext ! i \<notin> fst ` set ?wd" by simp
  qed
  have m: "m = length filelist - Suc k" using Suc.hyps(2) by simp
  have "''GRIBFILE.'' @ linkext ! k \<notin> fst ` set wd" using Suc.prems(2) k by simp
  then have "link_loop [k..<length filelist] filelist linkext wd =
      link_loop [Suc k..<length filelist] filelist linkext ?wd"
    using k assms(1) by (simp add: upt_conv_Cons os_symlink_def)
  also have "\<dots> = (Inr (), ?wd @ map (\<lambda>i. (''GRIBFILE.'' @ linkext ! i, Symlink (filelist ! i)))
                      [Suc k..<length filelist])"
    using Suc.hyps(1) [OF m _ fresh] k by simp
  finally show ?case using k by (simp add: upt_conv_Cons)
qed

lemma map_index_zip:
  "length ys = length xs \<Longrightarrow>
   map (\<lambda>i. f (xs ! i) (ys ! i)) [0..<length xs] = map (\<lambda>(x, y). f x y) (zip xs ys)"
  by (rule nth_equalityI) simp_all

text \<open>
  The split of the globbed pathname: its last component is the star, and its directory
  part is made of characters of the boundary directory and slashes.
\<close>

lemma split_join_star:
  assumes "os_path_split (os_path_join boundary_dir ''*'') = (dir, base)"
  shows "base = ''*''" and "set dir \<subseteq> insert (CHR ''/'') (set boundary_dir)"
proof -
  obtain rest where p: "os_path_join boundary_dir ''*'' = rest @ ''*''"
      and rest: "rest = [] \<or> last rest = CHR ''/''"
      and sub: "set rest \<subseteq> insert (CHR ''/'') (set boundary_dir)"
  proof (cases "boundary_dir = [] \<or> last boundary_dir = CHR ''/''")
    case True
    then show ?thesis by (intro that [of boundary_dir]) (auto simp: os_path_join_def)
  next
    case False
    then show ?thesis
      by (intro that [of "boundary_dir @ ''/''"]) (auto simp: os_path_join_def)
  qed
  have tw: "takeWhile (\<lambda>c. c \<noteq> CHR ''/'') (rev rest) = []"
    using rest by (cases rest rule: rev_cases) auto
  have tail: "rev (takeWhile (\<lambda>c. c \<noteq> CHR ''/'') (rev (rest @ ''*''))) = ''*''"
    using tw by simp
  have split: "os_path_split (rest @ ''*'') =
      (if rest \<noteq> [] \<and> \<not> list_all (\<lambda>c. c = CHR ''/'') rest
       then rev (dropWhile (\<lambda>c. c = CHR ''/'') (rev rest)) else rest, ''*'')"
    unfolding os_path_split_def Let_def tail by simp
  from assms show "base = ''*''" unfolding p split by simp
  have "set (rev (dropWhile (\<lambda>c. c = CHR ''/'') (rev rest))) \<subseteq> set rest"
    using set_dropWhileD by fastforce
  with assms sub show "set dir \<subseteq> insert (CHR ''/'') (set boundary_dir)"
    unfolding p split by (auto split: if_splits)
qed

lemma has_magic_subset:
  "\<not> has_magic boundary_dir \<Longrightarrow> set dir \<subseteq> insert (CHR ''/'') (set boundary_dir) \<Longrightarrow>
   \<not> has_magic dir"
  by (auto simp: has_magic_def list_ex_iff)

lemma boundary_filelist_plain:
  assumes "\<not> has_magic boundary_dir"
    and "os_path_split (os_path_join boundary_dir ''*'') = (dir, base)"
  shows "boundary_filelist fs boundary_dir = visible_regular_files fs dir"
proof -
  have base: "base = ''*''" and "\<not> has_magic dir"
    using split_join_star [OF assms(2)] has_magic_subset [OF assms(1)] by auto
  then show ?thesis
    using assms(2)
    by (simp add: boundary_filelist_def glob_path_def visible_regular_files_def glob_star
        isfile_def)
qed

lemma link_boundary_files_returns:
  assumes "boundary_filelist fs boundary_dir \<noteq> []"
    and "get_ext_list (length (boundary_filelist fs boundary_dir)) = Inr ids"
    and "list_all (\<lambda>x. ''GRIBFILE.'' @ x \<notin> fst ` set wd) ids"
  shows "link_boundary_files fs boundary_dir wd =
    (Inr (), wd @ map (\<lambda>(f, x). (''GRIBFILE.'' @ x, Symlink f))
                    (zip (boundary_filelist fs boundary_dir) ids))"
proof -
  let ?fl = "boundary_filelist fs boundary_dir"
  have len: "length ids = length ?fl" using assms(2) by (rule get_ext_list_length)
  have d: "distinct ids" using assms(2) by (rule get_ext_list_distinct)
  have fresh: "\<forall>i. 0 \<le> i \<and> i < length ?fl \<longrightarrow> ''GRIBFILE.'' @ ids ! i \<notin> fst ` set wd"
    using assms(3) len by (simp add: list_all_length)
  have "link_boundary_files fs boundary_dir wd = link_loop [0..<length ?fl] ?fl ids wd"
    using assms(1,2) by (simp add: link_boundary_files_def Let_def)
  also have "\<dots> = (Inr (), wd @ map (\<lambda>i. (''GRIBFILE.'' @ ids ! i, Symlink (?fl ! i)))
                      [0..<length ?fl])"
    by (rule link_loop_links [OF len d _ fresh]) simp
  also have "map (\<lambda>i. (''GRIBFILE.'' @ ids ! i, Symlink (?fl ! i))) [0..<length ?fl]
      = map (\<lambda>(f, x). (''GRIBFILE.'' @ x, Symlink f)) (zip ?fl ids)"
    using map_index_zip [OF len, of "\<lambda>f x. (''GRIBFILE.'' @ x, Symlink f)"] by simp
  finally show ?thesis .
qed

lemma link_boundary_files_no_files:
  "link_boundary_files fs boundary_dir wd =
     (Inl (IOError ''linking boundary files failed, no files found to link''), wd')
   \<Longrightarrow> boundary_filelist fs boundary_dir = []"
proof (rule ccontr)
  let ?fl = "boundary_filelist fs boundary_dir"
  assume r: "link_boundary_files fs boundary_dir wd =
     (Inl (IOError ''linking boundary files failed, no files found to link''), wd')"
    and ne: "?fl \<noteq> []"
  show False
  proof (cases "get_ext_list (length ?fl)")
    case (Inl e)
    with r ne have "e = IOError ''linking boundary files failed, no files found to link''"
      by (simp add: link_boundary_files_def Let_def)
    with get_ext_list_error [OF Inl] show False by simp
  next
    case (Inr ids)
    with r ne have "link_loop [0..<length ?fl] ?fl ids wd =
       (Inl (IOError ''linking boundary files failed, no files found to link''), wd')"
      by (simp add: link_boundary_files_def Let_def)
    from link_loop_error [OF this] show False by simp
  qed
qed

text \<open>The large directory: every one of its \<open>n\<close> files is a visible regular file.\<close>

lemma archive_regular_files:
  "visible_regular_files (archive n) ''/data/gfs'' = map archive_path [0..<n]"
proof -
  have "filter (\<lambda>name. take 1 name \<noteq> ''.'') (map archive_name [0..<n])
      = map archive_name [0..<n]"
    by (rule filter_True) (auto simp: archive_name_def)
  moreover have "map (os_path_join ''/data/gfs'') (map archive_name [0..<n])
      = map archive_path [0..<n]"
    by (simp add: os_path_join_def archive_path_def archive_name_def)
  moreover have "filter (\<lambda>path. path \<in> set (map archive_path [0..<n]))
      (map archive_path [0..<n]) = map archive_path [0..<n]"
    by (rule filter_True) simp
  ultimately show ?thesis
    by (simp add: visible_regular_files_def archive_def listdir_def)
qed

lemma split_data_gfs: "os_path_split (os_path_join ''/data/gfs'' ''*'') = (''/data/gfs'', ''*'')"
  by (simp add: os_path_join_def os_path_split_def)

lemma has_magic_data_gfs: "\<not> has_magic ''/data/gfs''"
  by (simp add: has_magic_def)

lemma archive_filelist:
  "boundary_filelist (archive n) ''/data/gfs'' = map archive_path [0..<n]"
  using boundary_filelist_plain [OF has_magic_data_gfs split_data_gfs, of "archive n"]
  by (simp add: archive_regular_files)

lemma get_ext_list_1: "get_ext_list (Suc 0) = Inr [''AAA'']"
  by code_simp

lemma get_ext_list_2: "get_ext_list (Suc (Suc 0)) = Inr [''AAA'', ''AAB'']"
  by code_simp

text \<open>
  Claim C6. The claim has the linking fail with the no-files error exactly when the
  source directory holds no regular file, and make k links for every directory of k
  regular files. Four directories where the code does otherwise: one of 17577 regular
  files, more than there are names of three letters, for which \<open>_get_ext_list\<close> raises
  and no link is made; one regular file whose link name \<open>GRIBFILE.AAA\<close> is taken in the
  working directory, where \<open>os.symlink\<close> raises; one regular file with a name that
  begins with a dot, which the glob of \<open>*\<close> skips, so that the no-files error is raised;
  and a directory named \<open>g[f]s\<close>, a name that \<open>glob\<close> reads as a pattern which the
  directory itself does not match, so that again the no-files error is raised.
\<close>

theorem link_boundary_files_fails:
  "length (regular_files (archive 17577) ''/data/gfs'') = 17577
   \<and> link_boundary_files (archive 17577) ''/data/gfs'' []
       = (Inl (IOError ''Too many files to link''), [])
   \<and> regular_files
         \<lparr>directories = [(''/data/gfs'', [''gfs.f000''])],
          regular = [''/data/gfs/gfs.f000''], expansions = []\<rparr> ''/data/gfs''
       = [''/data/gfs/gfs.f000'']
   \<and> link_boundary_files
         \<lparr>directories = [(''/data/gfs'', [''gfs.f000''])],
          regular = [''/data/gfs/gfs.f000''], expansions = []\<rparr> ''/data/gfs''
         [(''GRIBFILE.AAA'', Symlink ''/data/old/gfs.f000'')]
       = (Inl (OSError ''File exists''), [(''GRIBFILE.AAA'', Symlink ''/data/old/gfs.f000'')])
   \<and> regular_files
         \<lparr>directories = [(''/data/gfs'', [''.gfs.f000''])],
          regular = [''/data/gfs/.gfs.f000''], expansions = []\<rparr> ''/data/gfs''
       = [''/data/gfs/.gfs.f000'']
   \<and> link_boundary_files
         \<lparr>directories = [(''/data/gfs'', [''.gfs.f000''])],
          regular = [''/data/gfs/.gfs.f000''], expansions = []\<rparr> ''/data/gfs'' []
       = (Inl (IOError ''linking boundary files failed, no files found to link''), [])
   \<and> regular_files
         \<lparr>directories = [(''/data'', [''g[f]s'']), (''/data/g[f]s'', [''gfs.f000''])],
          regular = [''/data/g[f]s/gfs.f000''], expansions = []\<rparr> ''/data/g[f]s''
       = [''/data/g[f]s/gfs.f000'']
   \<and> link_boundary_files
         \<lparr>directories = [(''/data'', [''g[f]s'']), (''/data/g[f]s'', [''gfs.f000''])],
          regular = [''/data/g[f]s/gfs.f000''], expansions = []\<rparr> ''/data/g[f]s'' []
       = (Inl (IOError ''linking boundary files failed, no files found to link''), [])"
proof (intro conjI)
  have "regular_files (archive 17577) ''/data/gfs''
      = visible_regular_files (archive 17577) ''/data/gfs''"
    unfolding archive_regular_files
    by (simp add: regular_files_def archive_def listdir_def os_path_join_def archive_path_def
        archive_name_def)
  then show "length (regular_files (archive 17577) ''/data/gfs'') = 17577"
    by (simp add: archive_regular_files)
  have "boundary_filelist (archive 17577) ''/data/gfs'' \<noteq> []"
    unfolding archive_filelist by (simp add: upt_rec [of 0])
  then show "link_boundary_files (archive 17577) ''/data/gfs'' []
      = (Inl (IOError ''Too many files to link''), [])"
    by (simp add: link_boundary_files_def Let_def archive_filelist get_ext_list_overflow)
qed (simp_all add: regular_files_def link_boundary_files_def boundary_filelist_def
    glob_path_def os_path_split_def os_path_join_def listdir_def isfile_def expand_def
    has_magic_def glob_star get_ext_list_1 os_symlink_def)

lemma example_regular_files:
  "visible_regular_files
     \<lparr>directories = [(''/data/gfs'',
        [''gfs.t00z.pgrb2.f000'', ''inventory'', ''.listing'', ''gfs.t00z.pgrb2.f003''])],
      regular = [''/data/gfs/gfs.t00z.pgrb2.f000'', ''/data/gfs/.listing'',
                 ''/data/gfs/gfs.t00z.pgrb2.f003''],
      expansions = []\<rparr> ''/data/gfs''
   = [''/data/gfs/gfs.t00z.pgrb2.f000'', ''/data/gfs/gfs.t00z.pgrb2.f003'']"
  by (simp add: visible_regular_files_def listdir_def os_path_join_def)

lemma example_regular_files_empty:
  "visible_regular_files
     \<lparr>directories = [(''/data/gfs'', [''inventory''])], regular = [], expansions = []\<rparr>
     ''/data/gfs''
   = []"
  by (simp add: visible_regular_files_def listdir_def os_path_join_def)

text \<open>
  Claim C6 as amended. For a source directory whose path holds no glob character, with
  \<open>dir\<close> the directory as \<open>os.path.split\<close> names it and the files those regular files
  directly under \<open>dir\<close>, in listing order, whose names do not begin with a dot: the
  linking fails with the no-files \<open>IOError\<close> (NoBoundaryFiles) exactly when there is no
  such file; when there are k of them, \<open>_get_ext_list(k)\<close> returns identifiers and none
  of the link names is taken in the working directory, it returns with exactly k links
  appended, the i-th file linked as \<open>GRIBFILE.\<close> followed by the i-th identifier; and
  when \<open>_get_ext_list(k)\<close> raises, the linking raises the same exception and the working
  directory is unchanged.
\<close>

theorem link_boundary_files_links:
  assumes "\<not> has_magic boundary_dir"
    and "os_path_split (os_path_join boundary_dir ''*'') = (dir, base)"
  shows
  "(visible_regular_files fs dir = [] \<longrightarrow>
      link_boundary_files fs boundary_dir wd =
        (Inl (IOError ''linking boundary files failed, no files found to link''), wd))
   \<and> (\<forall>wd'. link_boundary_files fs boundary_dir wd =
          (Inl (IOError ''linking boundary files failed, no files found to link''), wd') \<longrightarrow>
        visible_regular_files fs dir = [])
   \<and> (\<forall>ids. visible_regular_files fs dir \<noteq> [] \<and>
          get_ext_list (length (visible_regular_files fs dir)) = Inr ids \<and>
          list_all (\<lambda>x. ''GRIBFILE.'' @ x \<notin> fst ` set wd) ids \<longrightarrow>
        length ids = length (visible_regular_files fs dir) \<and>
        link_boundary_files fs boundary_dir wd =
          (Inr (), wd @ map (\<lambda>(f, x). (''GRIBFILE.'' @ x, Symlink f))
                          (zip (visible_regular_files fs dir) ids)))
   \<and> (\<forall>e. visible_regular_files fs dir \<noteq> [] \<and>
          get_ext_list (length (visible_regular_files fs dir)) = Inl e \<longrightarrow>
        link_boundary_files fs boundary_dir wd = (Inl e, wd))"
proof -
  note fl = boundary_filelist_plain [OF assms, of fs]
  show ?thesis
  proof (intro conjI allI impI)
    assume "visible_regular_files fs dir = []"
    then show "link_boundary_files fs boundary_dir wd =
        (Inl (IOError ''linking boundary files failed, no files found to link''), wd)"
      by (simp add: link_boundary_files_def fl)
  next
    fix wd'
    assume "link_boundary_files fs boundary_dir wd =
        (Inl (IOError ''linking boundary files failed, no files found to link''), wd')"
    then show "visible_regular_files fs dir = []"
      using link_boundary_files_no_files [of fs boundary_dir wd wd'] by (simp add: fl)
  next
    fix ids
    assume a: "visible_regular_files fs dir \<noteq> [] \<and>
        get_ext_list (length (visible_regular_files fs dir)) = Inr ids \<and>
        list_all (\<lambda>x. ''GRIBFILE.'' @ x \<notin> fst ` set wd) ids"
    then show "length ids = length (visible_regular_files fs dir)"
      by (simp add: get_ext_list_length)
    from a show "link_boundary_files fs boundary_dir wd =
        (Inr (), wd @ map (\<lambda>(f, x). (''GRIBFILE.'' @ x, Symlink f))
                        (zip (visible_regular_files fs dir) ids))"
      using link_boundary_files_returns [of fs boundary_dir ids wd] by (simp add: fl)
  next
    fix e
    assume "visible_regular_files fs dir \<noteq> [] \<and>
        get_ext_list (length (visible_regular_files fs dir)) = Inl e"
    then show "link_boundary_files fs boundary_dir wd = (Inl e, wd)"
      by (simp add: link_boundary_files_def Let_def fl)
  qed
qed

theorem link_boundary_files_links_witness:
  "link_boundary_files
      \<lparr>directories = [(''/data/gfs'',
         [''gfs.t00z.pgrb2.f000'', ''inventory'', ''.listing'', ''gfs.t00z.pgrb2.f003''])],
       regular = [''/data/gfs/gfs.t00z.pgrb2.f000'', ''/data/gfs/.listing'',
                  ''/data/gfs/gfs.t00z.pgrb2.f003''],
       expansions = []\<rparr>
      ''/data/gfs'' [(''namelist.wps'', Regular Data)]
    = (Inr (), [(''namelist.wps'', Regular Data),
                (''GRIBFILE.AAA'', Symlink ''/data/gfs/gfs.t00z.pgrb2.f000''),
                (''GRIBFILE.AAB'', Symlink ''/data/gfs/gfs.t00z.pgrb2.f003'')])
   \<and> link_boundary_files
      \<lparr>directories = [(''/data/gfs'', [''inventory''])], regular = [], expansions = []\<rparr>
      ''/data/gfs'' [(''namelist.wps'', Regular Data)]
    = (Inl (IOError ''linking boundary files failed, no files found to link''),
       [(''namelist.wps'', Regular Data)])
   \<and> link_boundary_files (archive 17577) ''/data/gfs'' [(''namelist.wps'', Regular Data)]
    = (Inl (IOError ''Too many files to link''), [(''namelist.wps'', Regular Data)])"
proof (intro conjI)
  let ?fs = "\<lparr>directories = [(''/data/gfs'',
         [''gfs.t00z.pgrb2.f000'', ''inventory'', ''.listing'', ''gfs.t00z.pgrb2.f003''])],
       regular = [''/data/gfs/gfs.t00z.pgrb2.f000'', ''/data/gfs/.listing'',
                  ''/data/gfs/gfs.t00z.pgrb2.f003''],
       expansions = []\<rparr>"
  let ?wd = "[(''namelist.wps'', Regular Data)]"
  note t = link_boundary_files_links [OF has_magic_data_gfs split_data_gfs, of ?fs ?wd,
      THEN conjunct2, THEN conjunct2, THEN conjunct1, THEN spec, of "[''AAA'', ''AAB'']",
      unfolded example_regular_files]
  have "link_boundary_files ?fs ''/data/gfs'' ?wd =
      (Inr (), ?wd @ map (\<lambda>(f, x). (''GRIBFILE.'' @ x, Symlink f))
         (zip [''/data/gfs/gfs.t00z.pgrb2.f000'', ''/data/gfs/gfs.t00z.pgrb2.f003'']
              [''AAA'', ''AAB'']))"
    by (rule t [THEN mp, THEN conjunct2]) (simp add: get_ext_list_2)
  then show "link_boundary_files ?fs ''/data/gfs'' ?wd
    = (Inr (), [(''namelist.wps'', Regular Data),
                (''GRIBFILE.AAA'', Symlink ''/data/gfs/gfs.t00z.pgrb2.f000''),
                (''GRIBFILE.AAB'', Symlink ''/data/gfs/gfs.t00z.pgrb2.f003'')])"
    by simp
next
  show "link_boundary_files
      \<lparr>directories = [(''/data/gfs'', [''inventory''])], regular = [], expansions = []\<rparr>
      ''/data/gfs'' [(''namelist.wps'', Regular Data)]
    = (Inl (IOError ''linking boundary files failed, no files found to link''),
       [(''namelist.wps'', Regular Data)])"
    by (rule link_boundary_files_links [OF has_magic_data_gfs split_data_gfs,
          THEN conjunct1, THEN mp]) (rule example_regular_files_empty)
next
  note t = link_boundary_files_links [OF has_magic_data_gfs split_data_gfs,
      of "archive 17577" "[(''namelist.wps'', Regular Data)]",
      THEN conjunct2, THEN conjunct2, THEN conjunct2, THEN spec,
      of "IOError ''Too many files to link''"]
  show "link_boundary_files (archive 17577) ''/data/gfs'' [(''namelist.wps'', Regular Data)]
    = (Inl (IOError ''Too many files to link''), [(''namelist.wps'', Regular Data)])"
    by (rule t [THEN mp])
      (simp add: archive_regular_files get_ext_list_overflow upt_rec [of 0])
qed

section \<open>Properties of the workflow document\<close>

subsection \<open>The runtime blocks\<close>
















subsection \<open>The scheduling section\<close>

lemma render_scheduling:
  \<open>py_format scheduling_template [(''start_hour'', start_hour), (''incr_hour'', incr_hour)]
   = Inr (py_lines
     ([''[scheduling]'',
       ''  initial cycle point = {{ START }}'',
       ''  final cycle time   = {{ STOP }}'',
       ''  [[dependencies]]'',
       ''    # Initial cycle point'',
       ''    [[[R1/T'' @ start_hour @ '']]]'',
       ''      graph = """'']
      @ initial_graph @
      [''      """'',
       ''    # Repeat every '' @ incr_hour @ '' hours, starting '' @ incr_hour
          @ '' hours after initial cylce point'',
       ''    [[[+PT'' @ incr_hour @ ''H/PT'' @ incr_hour @ ''H]]]'',
       ''      graph = """'']
      @ repeat_graph @
      [''      """'',
       '''']))\<close>
  by (simp add: py_format_def scheduling_template_def initial_graph_def repeat_graph_def
      py_lines_def newline_def)

lemma graph_edges_initial:
  "graph_edges initial_graph =
     [(''wrf_init'', ''wrf_real''), (''wrf_real'', ''wrfda''), (''wrfda'', ''wrf_run''),
      (''wrf_init'', ''obsproc_init''), (''obsproc_init'', ''obsproc_run''),
      (''obsproc_run'', ''wrfda'')]"
  by (simp add: graph_edges_def initial_graph_def chain_edges_def chain_nodes_def)

lemma graph_edges_repeat:
  "graph_edges repeat_graph =
     [(''wrf_run[-PT2H]'', ''wrf_init''), (''wrf_init'', ''wrf_real''),
      (''wrf_real'', ''wrfda''), (''wrfda'', ''copy_urb''), (''copy_urb'', ''wrf_run''),
      (''wrf_init'', ''obsproc_init''), (''obsproc_init'', ''obsproc_run''),
      (''obsproc_run'', ''wrfda'')]"
  by (simp add: graph_edges_def repeat_graph_def chain_edges_def chain_nodes_def)

lemma graph_nodes_initial:
  "graph_nodes initial_graph =
     [''wrf_init'', ''wrf_real'', ''wrfda'', ''wrf_run'',
      ''wrf_init'', ''obsproc_init'', ''obsproc_run'', ''obsproc_run'', ''wrfda'']"
  by (simp add: graph_nodes_def initial_graph_def chain_nodes_def)

lemma graph_nodes_repeat:
  "graph_nodes repeat_graph =
     [''wrf_run[-PT2H]'', ''wrf_init'', ''wrf_real'', ''wrfda'', ''copy_urb'', ''wrf_run'',
      ''wrf_init'', ''obsproc_init'', ''obsproc_run'', ''obsproc_run'', ''wrfda'']"
  by (simp add: graph_nodes_def repeat_graph_def chain_nodes_def)

lemma cycles_back_2_6: "cycles_back 2 6 = ''[-PT12H]''"
  by code_simp

text \<open>
  Claim C8. The claim has the repeating graph differ from the initial one only by one
  added edge, from the previous cycle's run task two cycle points back to \<open>wrf_init\<close>,
  with no other node or edge differing. The template differs further: the repeating graph
  has the task \<open>copy_urb\<close>, which the initial graph has not, with an edge from \<open>wrfda\<close> to
  it; the edge from \<open>wrfda\<close> to \<open>wrf_run\<close> of the initial graph is gone from it; and the
  added dependency is on \<open>wrf_run[-PT2H]\<close>, two hours back whatever the cycle interval,
  which for a cycle of 6 hours is not the offset of two cycle points, \<open>[-PT12H]\<close>.
\<close>

theorem scheduling_graphs_differ:
  "(''wrfda'', ''copy_urb'') \<in> set (graph_edges repeat_graph)
   \<and> ''copy_urb'' \<notin> set (graph_nodes initial_graph)
   \<and> (''wrfda'', ''wrf_run'') \<in> set (graph_edges initial_graph)
   \<and> (''wrfda'', ''wrf_run'') \<notin> set (graph_edges repeat_graph)
   \<and> (''wrf_run[-PT2H]'', ''wrf_init'') \<in> set (graph_edges repeat_graph)
   \<and> (''wrf_run'' @ cycles_back 2 6, ''wrf_init'') \<notin> set (graph_edges repeat_graph)"
  by (simp add: graph_edges_initial graph_edges_repeat graph_nodes_initial cycles_back_2_6)

text \<open>
  Claim C8 as amended. When \<open>options_general\<close> holds a start date that validates and
  the count of hours, \<open>_scheduling\<close> returns the section with the initial graph under
  the heading of the start hour and the repeating graph under the heading of the cycle
  interval. The initial graph is
  \<open>wrf_init \<rightarrow> wrf_real \<rightarrow> wrfda \<rightarrow> wrf_run\<close> with
  \<open>wrf_init \<rightarrow> obsproc_init \<rightarrow> obsproc_run \<rightarrow> wrfda\<close>. The edges of the repeating graph
  are those of the initial graph without \<open>wrfda \<rightarrow> wrf_run\<close>, and three more:
  \<open>wrf_run[-PT2H] \<rightarrow> wrf_init\<close>, the run task two hours back, \<open>wrfda \<rightarrow> copy_urb\<close> and
  \<open>copy_urb \<rightarrow> wrf_run\<close>; its nodes are those of the initial graph, \<open>wrf_run[-PT2H]\<close> and
  \<open>copy_urb\<close>.
\<close>

theorem scheduling_graphs:
  assumes "getitem2 config ''options_general'' ''date_start'' = Inr date_start"
    and "return_validate date_start = Inr validated"
    and "getitem2 config ''options_general'' ''run_hours'' = Inr incr_hour"
  shows
  \<open>scheduling return_validate config = Inr (py_lines
     ([''[scheduling]'',
       ''  initial cycle point = {{ START }}'',
       ''  final cycle time   = {{ STOP }}'',
       ''  [[dependencies]]'',
       ''    # Initial cycle point'',
       ''    [[[R1/T'' @ zfill 2 (str_nat (hour validated)) @ '']]]'',
       ''      graph = """'']
      @ initial_graph @
      [''      """'',
       ''    # Repeat every '' @ incr_hour @ '' hours, starting '' @ incr_hour
          @ '' hours after initial cylce point'',
       ''    [[[+PT'' @ incr_hour @ ''H/PT'' @ incr_hour @ ''H]]]'',
       ''      graph = """'']
      @ repeat_graph @
      [''      """'',
       '''']))
   \<and> graph_edges initial_graph =
       [(''wrf_init'', ''wrf_real''), (''wrf_real'', ''wrfda''), (''wrfda'', ''wrf_run''),
        (''wrf_init'', ''obsproc_init''), (''obsproc_init'', ''obsproc_run''),
        (''obsproc_run'', ''wrfda'')]
   \<and> set (graph_edges repeat_graph) =
       (set (graph_edges initial_graph) - {(''wrfda'', ''wrf_run'')})
       \<union> {(''wrf_run[-PT2H]'', ''wrf_init''), (''wrfda'', ''copy_urb''),
          (''copy_urb'', ''wrf_run'')}
   \<and> set (graph_nodes repeat_graph) =
       set (graph_nodes initial_graph) \<union> {''wrf_run[-PT2H]'', ''copy_urb''}\<close>
proof (intro conjI)
  show "set (graph_edges repeat_graph) =
       (set (graph_edges initial_graph) - {(''wrfda'', ''wrf_run'')})
       \<union> {(''wrf_run[-PT2H]'', ''wrf_init''), (''wrfda'', ''copy_urb''),
          (''copy_urb'', ''wrf_run'')}"
    unfolding graph_edges_initial graph_edges_repeat by auto
  show "set (graph_nodes repeat_graph) =
       set (graph_nodes initial_graph) \<union> {''wrf_run[-PT2H]'', ''copy_urb''}"
    unfolding graph_nodes_initial graph_nodes_repeat by auto
qed (simp_all add: scheduling_def Let_def assms render_scheduling graph_edges_initial)

theorem scheduling_graphs_witness:
  \<open>scheduling
      (\<lambda>date. Inr \<lparr>year = 2014, month = 7, day = 27, hour = 0, minute = 0, second = 0\<rparr>)
      [(''options_general'', [(''date_start'', ''2014-07-27 00:00''), (''run_hours'', ''6'')])]
    = Inr (py_lines
       [''[scheduling]'',
        ''  initial cycle point = {{ START }}'',
        ''  final cycle time   = {{ STOP }}'',
        ''  [[dependencies]]'',
        ''    # Initial cycle point'',
        ''    [[[R1/T00]]]'',
        ''      graph = """'',
        ''        wrf_init => wrf_real => wrfda => wrf_run'',
        ''        wrf_init => obsproc_init => obsproc_run'',
        ''        obsproc_run => wrfda'',
        ''      """'',
        ''    # Repeat every 6 hours, starting 6 hours after initial cylce point'',
        ''    [[[+PT6H/PT6H]]]'',
        ''      graph = """'',
        ''        wrf_run[-PT2H] => wrf_init => wrf_real => wrfda => copy_urb => wrf_run'',
        ''        wrf_init => obsproc_init => obsproc_run'',
        ''        obsproc_run => wrfda'',
        ''      """'',
        ''''])\<close>
proof -
  have z: "zfill 2 (str_nat 0) = ''00''" by code_simp
  show ?thesis
    using scheduling_graphs
      [of "[(''options_general'', [(''date_start'', ''2014-07-27 00:00''), (''run_hours'', ''6'')])]"
          "''2014-07-27 00:00''"
          "\<lambda>date. Inr \<lparr>year = 2014, month = 7, day = 27, hour = 0, minute = 0, second = 0\<rparr>"
          "\<lparr>year = 2014, month = 7, day = 27, hour = 0, minute = 0, second = 0\<rparr>" "''6''"]
    by (simp add: getitem2_def getitem_def z initial_graph_def repeat_graph_def)
qed

end
